theory Spec2Isabelle
  imports Main "HOL-Library.Sublist"
begin

section \<open>Python values and the library functions the program calls\<close>

text \<open>
  The values that flow through the program are what \<^verbatim>\<open>json.loads\<close> produces and what the
  widgets return: \<^verbatim>\<open>None\<close>, booleans, numbers, strings, lists and dictionaries. A dictionary
  is an association list in insertion order, looked up with \<open>map_of\<close>. A \<open>string\<close> is a list
  of characters, each standing for one code point below 256.
\<close>

datatype pyval =
    PNone
  | PBool bool
  | PInt int
  | PFloat int int
  | PStr string
  | PList "pyval list"
  | PDict "(string \<times> pyval) list"

type_synonym pydict = "(string \<times> pyval) list"

datatype exn =
    JSONDecodeError
  | ValueError string
  | AttributeError
  | TypeError
  | KeyError string
  | ApiError
  | DbError

text \<open>
  The standard library functions whose code is not part of the repository are parameters of
  the model: \<open>json_loads\<close> is \<^verbatim>\<open>json.loads\<close> (\<open>None\<close> when it raises),
  \<open>json_dumps sort_keys ensure_ascii\<close> is \<^verbatim>\<open>json.dumps\<close>, and \<open>format_value\<close> is what an
  f-string prints for a value that is not a string.
\<close>

record pylib =
  json_loads :: "string \<Rightarrow> pyval option"
  json_dumps :: "bool \<Rightarrow> bool \<Rightarrow> pyval \<Rightarrow> string"
  format_value :: "pyval \<Rightarrow> string"

definition py_str :: "pylib \<Rightarrow> pyval \<Rightarrow> string" where
  "py_str lib v = (case v of PStr s \<Rightarrow> s | _ \<Rightarrow> format_value lib v)"

text \<open>Truthiness, as \<^verbatim>\<open>x or default\<close> and \<^verbatim>\<open>if x:\<close> read it.\<close>

fun truthy :: "pyval \<Rightarrow> bool" where
  "truthy PNone = False"
| "truthy (PBool b) = b"
| "truthy (PInt n) = (n \<noteq> 0)"
| "truthy (PFloat m e) = (m \<noteq> 0)"
| "truthy (PStr s) = (s \<noteq> [])"
| "truthy (PList xs) = (xs \<noteq> [])"
| "truthy (PDict kvs) = (kvs \<noteq> [])"

definition py_or :: "pyval \<Rightarrow> pyval \<Rightarrow> pyval" where
  "py_or v d = (if truthy v then v else d)"

text \<open>\<^verbatim>\<open>d.get(k)\<close> gives \<^verbatim>\<open>None\<close> for a missing key; \<^verbatim>\<open>d[k]\<close> raises \<^verbatim>\<open>KeyError\<close>.\<close>

definition dict_get :: "pydict \<Rightarrow> string \<Rightarrow> pyval" where
  "dict_get d k = (case map_of d k of None \<Rightarrow> PNone | Some v \<Rightarrow> v)"

definition dict_get_default :: "pydict \<Rightarrow> string \<Rightarrow> pyval \<Rightarrow> pyval" where
  "dict_get_default d k dflt = (case map_of d k of None \<Rightarrow> dflt | Some v \<Rightarrow> v)"

definition dict_item :: "pydict \<Rightarrow> string \<Rightarrow> exn + pyval" where
  "dict_item d k = (case map_of d k of None \<Rightarrow> Inl (KeyError k) | Some v \<Rightarrow> Inr v)"

definition setdefault :: "string \<Rightarrow> pyval \<Rightarrow> pydict \<Rightarrow> pydict" where
  "setdefault k v d = (case map_of d k of None \<Rightarrow> d @ [(k, v)] | Some _ \<Rightarrow> d)"

text \<open>
  Membership in a set of strings. A list or a dictionary is unhashable, and Python raises
  \<^verbatim>\<open>TypeError\<close> when asked whether it is in a set; any other value that is not a string is
  simply not a member.
\<close>

fun hashable :: "pyval \<Rightarrow> bool" where
  "hashable (PList xs) = False"
| "hashable (PDict kvs) = False"
| "hashable v = True"

definition in_set :: "pyval \<Rightarrow> string set \<Rightarrow> exn + bool" where
  "in_set v S =
     (if \<not> hashable v then Inl TypeError
      else Inr (case v of PStr s \<Rightarrow> s \<in> S | _ \<Rightarrow> False))"

text \<open>\<^verbatim>\<open>str.strip()\<close>, \<^verbatim>\<open>str.find\<close>, \<^verbatim>\<open>str.rfind\<close> for one character, and slicing.\<close>

definition py_isspace :: "char \<Rightarrow> bool" where
  "py_isspace c =
     (let n = (of_char c :: nat)
      in (9 \<le> n \<and> n \<le> 13) \<or> (28 \<le> n \<and> n \<le> 32) \<or> n = 133 \<or> n = 160)"

definition py_strip :: "string \<Rightarrow> string" where
  "py_strip s = rev (dropWhile py_isspace (rev (dropWhile py_isspace s)))"

fun py_find :: "string \<Rightarrow> char \<Rightarrow> int" where
  "py_find [] c = - 1"
| "py_find (x # xs) c =
     (if x = c then 0
      else (let r = py_find xs c in if r = - 1 then - 1 else r + 1))"

definition py_rfind :: "string \<Rightarrow> char \<Rightarrow> int" where
  "py_rfind s c =
     (let r = py_find (rev s) c
      in if r = - 1 then - 1 else int (length s) - 1 - r)"

definition py_slice :: "string \<Rightarrow> int \<Rightarrow> int \<Rightarrow> string" where
  "py_slice s i j =
     (let n = int (length s);
          clamp = (\<lambda>k. if k < 0 then max 0 (n + k) else min n k)
      in drop (nat (clamp i)) (take (nat (clamp j)) s))"

section \<open>llm.py\<close>

text \<open>
  \<^verbatim>\<open>_safe_json_load\<close>: a direct parse; when it raises, the text from the first opening brace to
  the last closing brace is parsed, and an error of that second parse propagates; with no
  such pair of braces the function raises \<^verbatim>\<open>ValueError\<close>.
\<close>

definition safe_json_load :: "pylib \<Rightarrow> string \<Rightarrow> exn + pyval" where
  "safe_json_load lib text =
     (case json_loads lib text of
        Some v \<Rightarrow> Inr v
      | None \<Rightarrow>
          (let start = py_find text CHR ''{'';
               end = py_rfind text CHR ''}''
           in if start \<noteq> - 1 \<and> end \<noteq> - 1 \<and> end > start
              then (case json_loads lib (py_slice text start (end + 1)) of
                      Some v \<Rightarrow> Inr v
                    | None \<Rightarrow> Inl JSONDecodeError)
              else Inl (ValueError ''Could not parse JSON from model output.'')))"

text \<open>
  \<^verbatim>\<open>extract_metadata\<close>: the call to the model either raises or returns a response whose
  \<^verbatim>\<open>output_text\<close> may be \<^verbatim>\<open>None\<close>; the stripped text goes to \<^verbatim>\<open>_safe_json_load\<close>.
\<close>

definition output_text_or_empty :: "string option \<Rightarrow> string" where
  "output_text_or_empty output_text = (case output_text of None \<Rightarrow> [] | Some t \<Rightarrow> t)"

definition extract_metadata :: "pylib \<Rightarrow> exn + string option \<Rightarrow> exn + pyval" where
  "extract_metadata lib resp =
     (case resp of
        Inl e \<Rightarrow> Inl e
      | Inr output_text \<Rightarrow> safe_json_load lib (py_strip (output_text_or_empty output_text)))"

text \<open>
  \<^verbatim>\<open>generate_description\<close>: the prompt carries the accepted metadata to the model; what
  comes back is an input of the run, returned stripped; the call may raise.
\<close>

definition generate_description :: "exn + string option \<Rightarrow> exn + string" where
  "generate_description resp =
     (case resp of
        Inl e \<Rightarrow> Inl e
      | Inr output_text \<Rightarrow> Inr (py_strip (output_text_or_empty output_text)))"

text \<open>
  \<^verbatim>\<open>validate_categorical\<close>. An exception of a step ends the function, which \<open>ebind\<close>
  writes out. The list comprehension of the source tests every entry of
  \<^verbatim>\<open>secondary_colors\<close> in order and stops at the first test that raises.
\<close>

definition ebind :: "exn + 'a \<Rightarrow> ('a \<Rightarrow> exn + 'b) \<Rightarrow> exn + 'b" where
  "ebind m f = (case m of Inl e \<Rightarrow> Inl e | Inr x \<Rightarrow> f x)"

fun bad_values :: "pyval list \<Rightarrow> string set \<Rightarrow> exn + pyval list" where
  "bad_values [] S = Inr []"
| "bad_values (x # xs) S =
     ebind (in_set x S) (\<lambda>b.
     ebind (bad_values xs S) (\<lambda>rest.
     Inr (if b then rest else x # rest)))"

definition secondary_errs :: "pylib \<Rightarrow> pyval \<Rightarrow> string set \<Rightarrow> exn + string list" where
  "secondary_errs lib sc color_set =
     (case sc of
        PList xs \<Rightarrow>
          ebind (bad_values xs color_set) (\<lambda>bad.
          Inr (if bad \<noteq> []
               then [''secondary_colors invalid values: '' @ py_str lib (PList bad)]
               else []))
      | _ \<Rightarrow> Inr [''secondary_colors must be a list''])"

definition validate_categorical ::
  "pylib \<Rightarrow> pydict \<Rightarrow> string set \<Rightarrow> string set \<Rightarrow> string set \<Rightarrow> exn + string list" where
  "validate_categorical lib meta color_set design_set theme_set =
     (let pc = dict_get meta ''primary_color'';
          sc = dict_get meta ''secondary_colors'';
          ds = dict_get meta ''design_style'';
          th = dict_get meta ''theme''
      in ebind (in_set pc color_set) (\<lambda>pc_ok.
         ebind (secondary_errs lib sc color_set) (\<lambda>errs2.
         ebind (in_set ds design_set) (\<lambda>ds_ok.
         ebind (in_set th theme_set) (\<lambda>th_ok.
         Inr ((if \<not> pc_ok then [''primary_color not in options: '' @ py_str lib pc] else [])
              @ errs2
              @ (if \<not> ds_ok then [''design_style not in options: '' @ py_str lib ds] else [])
              @ (if \<not> th_ok then [''theme not in options: '' @ py_str lib th] else [])))))))"

section \<open>db.py\<close>

text \<open>
  The table \<^verbatim>\<open>swatch_metadata\<close>: one record per row, a column holding the Python value
  that was bound to it (\<open>PNone\<close> is SQL NULL), \<open>updated_at\<close> the time of the statement.
  The statement of \<^verbatim>\<open>upsert_swatch\<close> inserts the row of its \<^verbatim>\<open>values\<close> clause;
  where a row with the same \<open>swatch_id\<close> exists, that row is updated by the assignments of
  the \<^verbatim>\<open>do update set\<close> clause instead, \<^verbatim>\<open>excluded\<close> being the row proposed for insertion.
\<close>

record swatch_row =
  col_swatch_id :: pyval
  col_primary_color :: pyval
  col_secondary_colors :: pyval
  col_design_style :: pyval
  col_theme :: pyval
  col_suitable_for :: pyval
  col_description :: pyval
  col_image_filename :: pyval
  col_updated_at :: nat

type_synonym table = "swatch_row list"

definition values_row :: "pydict \<Rightarrow> nat \<Rightarrow> swatch_row" where
  "values_row params now =
     \<lparr> col_swatch_id = dict_get params ''swatch_id'',
       col_primary_color = dict_get params ''primary_color'',
       col_secondary_colors = dict_get params ''secondary_colors'',
       col_design_style = dict_get params ''design_style'',
       col_theme = dict_get params ''theme'',
       col_suitable_for = dict_get params ''suitable_for'',
       col_description = dict_get params ''description'',
       col_image_filename = dict_get params ''image_filename'',
       col_updated_at = now \<rparr>"

definition do_update_set :: "swatch_row \<Rightarrow> swatch_row \<Rightarrow> nat \<Rightarrow> swatch_row" where
  "do_update_set old excluded now =
     old \<lparr> col_primary_color := col_primary_color excluded,
           col_secondary_colors := col_secondary_colors excluded,
           col_design_style := col_design_style excluded,
           col_theme := col_theme excluded,
           col_suitable_for := col_suitable_for excluded,
           col_description := col_description excluded,
           col_image_filename := col_image_filename excluded,
           col_updated_at := now \<rparr>"

definition conflicts :: "swatch_row \<Rightarrow> swatch_row \<Rightarrow> bool" where
  "conflicts r excluded = (col_swatch_id r = col_swatch_id excluded)"

definition execute_upsert :: "pydict \<Rightarrow> nat \<Rightarrow> table \<Rightarrow> table" where
  "execute_upsert params now tbl =
     (let excluded = values_row params now
      in if list_ex (\<lambda>r. conflicts r excluded) tbl
         then map (\<lambda>r. if conflicts r excluded then do_update_set r excluded now else r) tbl
         else tbl @ [excluded])"

text \<open>
  \<^verbatim>\<open>upsert_swatch\<close>: \<^verbatim>\<open>row[k]\<close> raises \<^verbatim>\<open>KeyError\<close> for a missing key and \<^verbatim>\<open>row.get(k)\<close>
  gives \<^verbatim>\<open>None\<close>; \<open>db_fails\<close> says that executing the statement raises, and then the
  transaction leaves the table as it was.
\<close>

definition upsert_params :: "pylib \<Rightarrow> pydict \<Rightarrow> exn + pydict" where
  "upsert_params lib row =
     ebind (dict_item row ''secondary_colors'') (\<lambda>sc.
     let secondary_json = json_dumps lib False False sc
     in ebind (dict_item row ''swatch_id'') (\<lambda>sid.
        ebind (dict_item row ''primary_color'') (\<lambda>pc.
        ebind (dict_item row ''design_style'') (\<lambda>ds.
        ebind (dict_item row ''theme'') (\<lambda>th.
        Inr [(''swatch_id'', sid),
             (''primary_color'', pc),
             (''secondary_colors'', PStr secondary_json),
             (''design_style'', ds),
             (''theme'', th),
             (''suitable_for'', dict_get row ''suitable_for''),
             (''description'', dict_get row ''description''),
             (''image_filename'', dict_get row ''image_filename'')])))))"

definition upsert_swatch :: "pylib \<Rightarrow> bool \<Rightarrow> nat \<Rightarrow> pydict \<Rightarrow> table \<Rightarrow> exn + table" where
  "upsert_swatch lib db_fails now row tbl =
     ebind (upsert_params lib row) (\<lambda>params.
     if db_fails then Inl DbError else Inr (execute_upsert params now tbl))"

section \<open>app.py\<close>

text \<open>
  The script runs from top to bottom on every interaction, over the session state that
  survives between runs. \<open>catalog\<close> holds the three cached option lists; \<open>inputs\<close> holds
  what one run receives from outside: the values of the upload widgets, which button was
  pressed, what the operator has selected or typed in each control (\<open>None\<close> when the
  control still shows its default), the answers of the model, whether the database
  fails, and the time.
\<close>

record session =
  draft_meta :: "pydict option"
  accepted_meta :: "pydict option"
  meta_dirty :: bool
  description :: string
  desc_based_on_meta :: "string option"

definition init_state :: session where
  "init_state =
     \<lparr> draft_meta = None, accepted_meta = None, meta_dirty = False,
       description = [], desc_based_on_meta = None \<rparr>"

record catalog =
  color_opts :: "string list"
  design_opts :: "string list"
  theme_opts :: "string list"

record inputs =
  swatch_id_input :: string
  filename :: string
  btn_extract :: bool
  extract_resp :: "exn + string option"
  sel_primary :: "nat option"
  sel_secondary :: "nat list option"
  sel_design_style :: "nat option"
  sel_theme :: "nat option"
  txt_suitable_for :: "string option"
  btn_accept :: bool
  btn_generate :: bool
  generate_resp :: "exn + string option"
  txt_description :: "string option"
  btn_save :: bool
  db_fails :: bool
  now :: nat

datatype message =
    StError string
  | StErrorExn string exn
  | StWarning string
  | StInfo string
  | StSuccess string

datatype outcome = Finished | Stopped | Crashed exn

record result =
  r_session :: session
  r_table :: table
  r_outcome :: outcome
  r_messages :: "message list"
  r_upserts :: "pydict list"

text \<open>
  \<^verbatim>\<open>os.path.splitext(filename)[0]\<close>: the name up to its last dot, when that dot comes after
  the last slash and some character between the two is not a dot.
\<close>

definition splitext_root :: "string \<Rightarrow> string" where
  "splitext_root p =
     (let sepIndex = py_rfind p CHR ''/'';
          dotIndex = py_rfind p CHR ''.''
      in if dotIndex > sepIndex
            \<and> list_ex (\<lambda>c. c \<noteq> CHR ''.'') (py_slice p (sepIndex + 1) dotIndex)
         then py_slice p 0 dotIndex
         else p)"

definition swatch_id :: "inputs \<Rightarrow> string" where
  "swatch_id inp =
     (if py_strip (swatch_id_input inp) \<noteq> []
      then py_strip (swatch_id_input inp)
      else splitext_root (filename inp))"

text \<open>The handler of the Extract button, with its \<^verbatim>\<open>try\<close> and \<^verbatim>\<open>except\<close>.\<close>

definition ensure_keys :: "pydict \<Rightarrow> pydict" where
  "ensure_keys meta =
     setdefault ''suitable_for'' (PStr [])
       (setdefault ''theme'' (PStr [])
         (setdefault ''design_style'' (PStr [])
           (setdefault ''secondary_colors'' (PList [])
             (setdefault ''primary_color'' (PStr []) meta))))"

definition extract_handler :: "pylib \<Rightarrow> inputs \<Rightarrow> session \<Rightarrow> session \<times> message list" where
  "extract_handler lib inp s =
     (if btn_extract inp
      then (case extract_metadata lib (extract_resp inp) of
              Inl e \<Rightarrow> (s, [StErrorExn ''Metadata extraction failed: '' e])
            | Inr (PDict meta) \<Rightarrow>
                (s \<lparr> draft_meta := Some (ensure_keys meta),
                     accepted_meta := None,
                     meta_dirty := False,
                     description := [],
                     desc_based_on_meta := None \<rparr>, [])
            | Inr _ \<Rightarrow> (s, [StErrorExn ''Metadata extraction failed: '' AttributeError]))
      else (s, []))"

text \<open>\<^verbatim>\<open>_mark_dirty\<close>, the \<^verbatim>\<open>on_change\<close> callback of all five edit controls.\<close>

definition mark_dirty :: "session \<Rightarrow> session" where
  "mark_dirty s =
     (if accepted_meta s \<noteq> None
      then s \<lparr> meta_dirty := True,
               accepted_meta := None,
               description := [],
               desc_based_on_meta := None \<rparr>
      else s)"

text \<open>
  \<^verbatim>\<open>safe_index\<close>: the position of the first option equal to the value, or 0 when
  \<^verbatim>\<open>options.index\<close> raises. Only a string can equal an option.
\<close>

fun index_of :: "string \<Rightarrow> string list \<Rightarrow> nat" where
  "index_of v [] = 0"
| "index_of v (x # xs) = (if x = v then 0 else Suc (index_of v xs))"

definition safe_index :: "string list \<Rightarrow> pyval \<Rightarrow> nat" where
  "safe_index options v =
     (case v of
        PStr s \<Rightarrow> if s \<in> set options then index_of s options else 0
      | _ \<Rightarrow> 0)"

text \<open>
  The widgets. A select box returns the option the operator selected, or the option at
  \<open>index\<close> while untouched, and \<^verbatim>\<open>None\<close> when there are no options; a selection outside
  the options cannot be made and reads as no selection. A multiselect returns the
  selected options, or its default while untouched. A text field returns the typed text,
  or its value while untouched.
\<close>

definition selectbox :: "string list \<Rightarrow> nat \<Rightarrow> nat option \<Rightarrow> pyval" where
  "selectbox options index sel =
     (if options = [] then PNone
      else (case sel of
              Some i \<Rightarrow> if i < length options then PStr (options ! i) else PStr (options ! index)
            | None \<Rightarrow> PStr (options ! index)))"

definition multiselect :: "string list \<Rightarrow> pyval list \<Rightarrow> nat list option \<Rightarrow> pyval list" where
  "multiselect options dflt sel =
     (case sel of
        Some picks \<Rightarrow> map (\<lambda>i. PStr (options ! i)) (filter (\<lambda>i. i < length options) picks)
      | None \<Rightarrow> dflt)"

definition text_input :: "string \<Rightarrow> string option \<Rightarrow> string" where
  "text_input v typed = (case typed of Some t \<Rightarrow> t | None \<Rightarrow> v)"

text \<open>
  Iterating a value: a list gives its entries, a string its characters, a dictionary its
  keys in order of first insertion; anything else raises \<^verbatim>\<open>TypeError\<close>.
\<close>

definition py_iter :: "pyval \<Rightarrow> exn + pyval list" where
  "py_iter v =
     (case v of
        PList xs \<Rightarrow> Inr xs
      | PStr s \<Rightarrow> Inr (map (\<lambda>c. PStr [c]) s)
      | PDict kvs \<Rightarrow> Inr (map PStr (rev (remdups (rev (map fst kvs)))))
      | _ \<Rightarrow> Inl TypeError)"

fun good_values :: "pyval list \<Rightarrow> string set \<Rightarrow> exn + pyval list" where
  "good_values [] S = Inr []"
| "good_values (x # xs) S =
     ebind (in_set x S) (\<lambda>b.
     ebind (good_values xs S) (\<lambda>rest.
     Inr (if b then x # rest else rest)))"

definition secondary_default :: "catalog \<Rightarrow> pydict \<Rightarrow> exn + pyval list" where
  "secondary_default cat draft =
     ebind (py_iter (py_or (dict_get draft ''secondary_colors'') (PList []))) (\<lambda>xs.
     good_values xs (set (color_opts cat)))"

text \<open>The five edit controls and \<^verbatim>\<open>final_meta\<close>, the dictionary built from their values.\<close>

definition final_meta :: "pylib \<Rightarrow> catalog \<Rightarrow> inputs \<Rightarrow> pydict \<Rightarrow> exn + pydict" where
  "final_meta lib cat inp draft =
     (let primary = selectbox (color_opts cat)
                      (safe_index (color_opts cat) (dict_get draft ''primary_color''))
                      (sel_primary inp)
      in ebind (secondary_default cat draft) (\<lambda>dflt.
         let secondary = multiselect (color_opts cat) dflt (sel_secondary inp);
             design_style = selectbox (design_opts cat)
                              (safe_index (design_opts cat) (dict_get draft ''design_style''))
                              (sel_design_style inp);
             theme = selectbox (theme_opts cat)
                       (safe_index (theme_opts cat) (dict_get draft ''theme''))
                       (sel_theme inp);
             suitable_for = text_input
                              (py_str lib (py_or (dict_get draft ''suitable_for'') (PStr [])))
                              (txt_suitable_for inp)
         in Inr [(''primary_color'', primary),
                 (''secondary_colors'', PList secondary),
                 (''design_style'', design_style),
                 (''theme'', theme),
                 (''suitable_for'', PStr suitable_for)]))"

text \<open>The handlers of the Accept and Generate buttons.\<close>

definition accept_handler :: "inputs \<Rightarrow> pydict \<Rightarrow> session \<Rightarrow> session \<times> message list" where
  "accept_handler inp fm s =
     (if btn_accept inp
      then (s \<lparr> accepted_meta := Some fm, meta_dirty := False \<rparr>,
            [StSuccess ''Metadata accepted. You can now generate the description.''])
      else (s, []))"

definition generate_handler ::
  "pylib \<Rightarrow> inputs \<Rightarrow> pydict \<Rightarrow> session \<Rightarrow> session \<times> message list" where
  "generate_handler lib inp accepted s =
     (if btn_generate inp
      then (case generate_description (generate_resp inp) of
              Inl e \<Rightarrow> (s, [StErrorExn ''Description generation failed: '' e])
            | Inr desc \<Rightarrow>
                (s \<lparr> description := desc,
                     desc_based_on_meta := Some (json_dumps lib True True (PDict accepted)) \<rparr>,
                 []))
      else (s, []))"

text \<open>
  The handler of the Save button. The dictionary handed to \<^verbatim>\<open>upsert_swatch\<close> is built inside
  the \<^verbatim>\<open>try\<close>, so a \<^verbatim>\<open>KeyError\<close> of \<^verbatim>\<open>accepted[k]\<close> is caught like a database error.
  The result lists the dictionaries \<^verbatim>\<open>upsert_swatch\<close> was called with. The messages are
  those of the source without their pictographs.
\<close>

definition save_row :: "inputs \<Rightarrow> pydict \<Rightarrow> string \<Rightarrow> exn + pydict" where
  "save_row inp accepted desc =
     ebind (dict_item accepted ''primary_color'') (\<lambda>pc.
     ebind (dict_item accepted ''secondary_colors'') (\<lambda>sc.
     ebind (dict_item accepted ''design_style'') (\<lambda>ds.
     ebind (dict_item accepted ''theme'') (\<lambda>th.
     Inr [(''swatch_id'', PStr (swatch_id inp)),
          (''primary_color'', pc),
          (''secondary_colors'', sc),
          (''design_style'', ds),
          (''theme'', th),
          (''suitable_for'', dict_get_default accepted ''suitable_for'' (PStr [])),
          (''description'', PStr (py_strip desc)),
          (''image_filename'', PStr (filename inp))]))))"

definition save_handler ::
  "pylib \<Rightarrow> inputs \<Rightarrow> pydict \<Rightarrow> session \<Rightarrow> table \<Rightarrow> result" where
  "save_handler lib inp accepted s tbl =
     (if py_strip (description s) = []
      then \<lparr> r_session = s, r_table = tbl, r_outcome = Stopped,
             r_messages =
               [StError ''Description is empty. Generate or write a description before saving.''],
             r_upserts = [] \<rparr>
      else
        (let current_sig = json_dumps lib True True (PDict accepted)
         in if desc_based_on_meta s \<noteq> None \<and> desc_based_on_meta s \<noteq> Some current_sig
            then \<lparr> r_session = s, r_table = tbl, r_outcome = Stopped,
                   r_messages =
                     [StWarning ''Metadata changed since last description generation. Please regenerate description.''],
                   r_upserts = [] \<rparr>
            else
              (case save_row inp accepted (description s) of
                 Inl e \<Rightarrow>
                   \<lparr> r_session = s, r_table = tbl, r_outcome = Finished,
                     r_messages = [StErrorExn ''Save failed: '' e], r_upserts = [] \<rparr>
               | Inr row \<Rightarrow>
                   (case upsert_swatch lib (db_fails inp) (now inp) row tbl of
                      Inl e \<Rightarrow>
                        \<lparr> r_session = s, r_table = tbl, r_outcome = Finished,
                          r_messages = [StErrorExn ''Save failed: '' e], r_upserts = [row] \<rparr>
                    | Inr tbl' \<Rightarrow>
                        \<lparr> r_session = s, r_table = tbl', r_outcome = Finished,
                          r_messages = [StSuccess ''Saved (If swatch_id existed, it was overwritten.)''],
                          r_upserts = [row] \<rparr>))))"

text \<open>
  One run of the script from the Extract button on (an upload is present, or the script
  has stopped before). \<^verbatim>\<open>st.stop()\<close> ends the run; an exception outside a \<^verbatim>\<open>try\<close> ends it
  too; in both cases the session state keeps what was assigned before.
\<close>

definition halt :: "session \<Rightarrow> table \<Rightarrow> outcome \<Rightarrow> message list \<Rightarrow> result" where
  "halt s tbl out msgs =
     \<lparr> r_session = s, r_table = tbl, r_outcome = out, r_messages = msgs, r_upserts = [] \<rparr>"

definition step2 :: "pylib \<Rightarrow> inputs \<Rightarrow> pydict \<Rightarrow> session \<Rightarrow> table \<Rightarrow> message list \<Rightarrow> result" where
  "step2 lib inp accepted s tbl msgs =
     (let (s3, m3) = generate_handler lib inp accepted s;
          s4 = s3 \<lparr> description := text_input (description s3) (txt_description inp) \<rparr>
      in if btn_save inp
         then (let r = save_handler lib inp accepted s4 tbl
               in r \<lparr> r_messages := msgs @ m3 @ r_messages r \<rparr>)
         else halt s4 tbl Finished (msgs @ m3))"

definition step1 :: "pylib \<Rightarrow> catalog \<Rightarrow> inputs \<Rightarrow> pydict \<Rightarrow> session \<Rightarrow> table \<Rightarrow> message list \<Rightarrow> result" where
  "step1 lib cat inp draft s tbl msgs =
     (case validate_categorical lib draft
             (set (color_opts cat)) (set (design_opts cat)) (set (theme_opts cat)) of
        Inl e \<Rightarrow> halt s tbl (Crashed e) msgs
      | Inr errs \<Rightarrow>
          (let m1 = (if errs \<noteq> []
                     then [StWarning (''LLM output needs review (you can correct using dropdowns):''
                                      @ concat (map (\<lambda>e. [CHR 0x0A] @ ''- '' @ e) errs))]
                     else [])
           in case final_meta lib cat inp draft of
                Inl e \<Rightarrow> halt s tbl (Crashed e) (msgs @ m1)
              | Inr fm \<Rightarrow>
                  (let (s2, m2) = accept_handler inp fm s;
                       m2' = (if meta_dirty s2
                              then [StWarning ''Metadata changed after acceptance. Please Accept again to generate description.'']
                              else [])
                   in case accepted_meta s2 of
                        None \<Rightarrow>
                          halt s2 tbl Stopped
                            (msgs @ m1 @ m2 @ m2'
                             @ [StInfo ''Accept the metadata first to enable description generation.''])
                      | Some accepted \<Rightarrow>
                          step2 lib inp accepted s2 tbl (msgs @ m1 @ m2 @ m2'))))"

definition run :: "pylib \<Rightarrow> catalog \<Rightarrow> inputs \<Rightarrow> session \<Rightarrow> table \<Rightarrow> result" where
  "run lib cat inp s tbl =
     (let (s1, m0) = extract_handler lib inp s
      in case draft_meta s1 of
           None \<Rightarrow>
             halt s1 tbl Stopped
               (m0 @ [StWarning ''Click **Extract / Regenerate metadata** to generate the initial metadata draft.''])
         | Some draft \<Rightarrow> step1 lib cat inp draft s1 tbl m0)"

text \<open>
  Editing one of the five controls fires \<^verbatim>\<open>_mark_dirty\<close> and then runs the script with the
  new value of the control.
\<close>

definition edit_run :: "pylib \<Rightarrow> catalog \<Rightarrow> inputs \<Rightarrow> session \<Rightarrow> table \<Rightarrow> result" where
  "edit_run lib cat inp s tbl = run lib cat inp (mark_dirty s) tbl"

text \<open>
  The states a session can reach: it starts in \<open>init_state\<close> with some table, and every
  interaction is a run of the script, after \<^verbatim>\<open>_mark_dirty\<close> when a control was edited.
\<close>

inductive reachable :: "pylib \<Rightarrow> catalog \<Rightarrow> session \<Rightarrow> bool" for lib cat where
  reach_init: "reachable lib cat init_state"
| reach_run: "reachable lib cat s \<Longrightarrow> reachable lib cat (r_session (run lib cat inp s tbl))"
| reach_edit: "reachable lib cat s \<Longrightarrow> reachable lib cat (r_session (edit_run lib cat inp s tbl))"

section \<open>Concrete inputs\<close>

text \<open>
  For evaluating the model at concrete inputs: a library given by finite tables, each
  entry being what Python returns at that argument; a small catalog; the inputs of a run
  in which nothing is pressed, selected or typed; and the session of Scenario B after
  Accept and GenerateDescription.
\<close>

definition table_lib ::
  "(string \<times> pyval) list \<Rightarrow> (pyval \<times> string) list \<Rightarrow> (pyval \<times> string) list \<Rightarrow> pylib" where
  "table_lib parses dumps formats =
     \<lparr> json_loads = map_of parses,
       json_dumps = (\<lambda>sort_keys ensure_ascii v. case map_of dumps v of Some t \<Rightarrow> t | None \<Rightarrow> []),
       format_value = (\<lambda>v. case map_of formats v of Some t \<Rightarrow> t | None \<Rightarrow> []) \<rparr>"

definition example_catalog :: catalog where
  "example_catalog =
     \<lparr> color_opts = [''Blue'', ''Grey'', ''Red'', ''White''],
       design_opts = [''Classic'', ''Modern''],
       theme_opts = [''Floral'', ''Nature''] \<rparr>"

definition idle_inputs :: inputs where
  "idle_inputs =
     \<lparr> swatch_id_input = [], filename = ''swatch_0001.png'',
       btn_extract = False, extract_resp = Inl ApiError,
       sel_primary = None, sel_secondary = None, sel_design_style = None, sel_theme = None,
       txt_suitable_for = None,
       btn_accept = False, btn_generate = False, generate_resp = Inl ApiError,
       txt_description = None, btn_save = False, db_fails = False, now = 0 \<rparr>"

definition scenario_b_meta :: pydict where
  "scenario_b_meta =
     [(''primary_color'', PStr ''Blue''), (''secondary_colors'', PList []),
      (''design_style'', PStr ''Modern''), (''theme'', PStr ''Nature''),
      (''suitable_for'', PStr [])]"

definition scenario_b_sig :: string where
  \<open>scenario_b_sig =
     ''{"design_style": "Modern", "primary_color": "Blue", "secondary_colors": [], "suitable_for": "", "theme": "Nature"}''\<close>

definition scenario_b_state :: session where
  "scenario_b_state =
     \<lparr> draft_meta = Some scenario_b_meta, accepted_meta = Some scenario_b_meta,
       meta_dirty = False, description = ''A blue wallpaper in a modern style.'',
       desc_based_on_meta = Some scenario_b_sig \<rparr>"

definition scenario_d_text :: string where
  \<open>scenario_d_text = ''Here you go: {"primary_color":"Red"} thanks''\<close>

definition scenario_d_lib :: pylib where
  \<open>scenario_d_lib =
     table_lib [(''{"primary_color":"Red"}'', PDict [(''primary_color'', PStr ''Red'')]),
                (''[1, 2]'', PList [PInt 1, PInt 2])] [] []\<close>

definition scenario_d_response :: string where
  \<open>scenario_d_response = ''  Here you go: {"primary_color":"Red"} thanks ''\<close>

definition extract_inputs :: "string \<Rightarrow> inputs" where
  "extract_inputs t = idle_inputs \<lparr> btn_extract := True, extract_resp := Inr (Some t) \<rparr>"

definition scenario_a_text :: string where
  \<open>scenario_a_text =
     ''{"primary_color":"Blue","secondary_colors":["White","White","Grey"],"design_style":"Modern","theme":"Nature"}''\<close>

definition scenario_a_meta :: pydict where
  "scenario_a_meta =
     [(''primary_color'', PStr ''Blue''),
      (''secondary_colors'', PList [PStr ''White'', PStr ''White'', PStr ''Grey'']),
      (''design_style'', PStr ''Modern''), (''theme'', PStr ''Nature'')]"

definition scenario_a_lib :: pylib where
  "scenario_a_lib = table_lib [(scenario_a_text, PDict scenario_a_meta)] [] []"

text \<open>
  Validity as section 3 of the specification words it: the three categorical fields are
  members of their catalog sets and every entry of \<open>secondary_colors\<close> is a member of
  the colours. Only a string can be a member of a set of strings.
\<close>

definition is_member :: "pyval \<Rightarrow> string set \<Rightarrow> bool" where
  "is_member v S = (case v of PStr s \<Rightarrow> s \<in> S | _ \<Rightarrow> False)"

definition valid_record :: "pydict \<Rightarrow> string set \<Rightarrow> string set \<Rightarrow> string set \<Rightarrow> bool" where
  "valid_record r colors design_styles themes =
     (is_member (dict_get r ''primary_color'') colors
      \<and> is_member (dict_get r ''design_style'') design_styles
      \<and> is_member (dict_get r ''theme'') themes
      \<and> (case dict_get r ''secondary_colors'' of
            PList xs \<Rightarrow> list_all (\<lambda>x. is_member x colors) xs
          | _ \<Rightarrow> False))"

definition unhashable_text :: string where
  \<open>unhashable_text =
     ''{"primary_color": ["Blue"], "secondary_colors": [], "design_style": "Modern", "theme": "Nature", "suitable_for": ""}''\<close>

definition unhashable_meta :: pydict where
  "unhashable_meta =
     [(''primary_color'', PList [PStr ''Blue'']), (''secondary_colors'', PList []),
      (''design_style'', PStr ''Modern''), (''theme'', PStr ''Nature''),
      (''suitable_for'', PStr [])]"

definition unhashable_lib :: pylib where
  "unhashable_lib = table_lib [(unhashable_text, PDict unhashable_meta)] [] []"

definition invalid_meta :: pydict where
  "invalid_meta =
     [(''primary_color'', PStr ''Teal''),
      (''secondary_colors'', PList [PStr ''White'', PStr ''Neon'', PStr ''Mauve'']),
      (''design_style'', PStr ''Modern''), (''theme'', PStr ''Space''),
      (''suitable_for'', PStr ''Bedroom'')]"

definition invalid_lib :: pylib where
  "invalid_lib = table_lib [] [] [(PList [PStr ''Neon'', PStr ''Mauve''], ''['' @ [CHR 0x27] @ ''Neon'' @ [CHR 0x27] @ '', '' @ [CHR 0x27] @ ''Mauve'' @ [CHR 0x27] @ '']'')]"

definition nonlist_meta :: pydict where
  "nonlist_meta =
     [(''primary_color'', PStr ''Blue''), (''secondary_colors'', PInt 5),
      (''design_style'', PStr ''Modern''), (''theme'', PStr ''Nature''),
      (''suitable_for'', PStr [])]"

definition nonlist_lib :: pylib where
  "nonlist_lib = table_lib [] [] [(PInt 5, ''5'')]"

definition payload_one :: pydict where
  "payload_one =
     [(''swatch_id'', PStr ''SWATCH_0001''), (''primary_color'', PStr ''Blue''),
      (''secondary_colors'', PList [PStr ''White'']), (''design_style'', PStr ''Modern''),
      (''theme'', PStr ''Nature''), (''suitable_for'', PStr ''Bedroom''),
      (''description'', PStr ''A blue wallpaper.''), (''image_filename'', PStr ''one.png'')]"

definition payload_two :: pydict where
  "payload_two =
     [(''swatch_id'', PStr ''SWATCH_0001''), (''primary_color'', PStr ''Red''),
      (''secondary_colors'', PList [PStr ''Grey'', PStr ''White'']), (''design_style'', PStr ''Classic''),
      (''theme'', PStr ''Floral''), (''suitable_for'', PStr ''Hall''),
      (''description'', PStr ''A red wallpaper.''), (''image_filename'', PStr ''two.png'')]"

definition payload_lib :: pylib where
  \<open>payload_lib =
     table_lib []
       [(PList [PStr ''White''], ''["White"]''),
        (PList [PStr ''Grey'', PStr ''White''], ''["Grey", "White"]'')] []\<close>

definition other_row :: swatch_row where
  \<open>other_row =
     \<lparr> col_swatch_id = PStr ''SWATCH_0002'', col_primary_color = PStr ''Grey'',
       col_secondary_colors = PStr ''[]'', col_design_style = PStr ''Modern'',
       col_theme = PStr ''Nature'', col_suitable_for = PNone, col_description = PNone,
       col_image_filename = PNone, col_updated_at = 3 \<rparr>\<close>

text \<open>
  What holds of the accepted snapshot in every state a session reaches: it is the
  dictionary of the edit controls of some run over the present draft, and the validator
  returns on that draft.
\<close>

definition snapshot_inv :: "pylib \<Rightarrow> catalog \<Rightarrow> session \<Rightarrow> bool" where
  "snapshot_inv lib cat s =
     (case accepted_meta s of
        None \<Rightarrow> True
      | Some a \<Rightarrow>
          (\<exists>draft errs inp.
             draft_meta s = Some draft
             \<and> validate_categorical lib draft (set (color_opts cat)) (set (design_opts cat))
                   (set (theme_opts cat)) = Inr errs
             \<and> final_meta lib cat inp draft = Inr a))"

text \<open>
  A session walked through for the evaluations below: the model answers a record with two
  labels and two secondary colours outside the catalog; the operator accepts without
  touching a control, has the description generated, and saves.
\<close>

definition walk_text :: string where
  \<open>walk_text =
     ''{"primary_color": "Teal", "secondary_colors": ["White", "Neon", "Mauve"], "design_style": "Modern", "theme": "Space", "suitable_for": "Bedroom"}''\<close>

definition accepted_a :: pydict where
  "accepted_a =
     [(''primary_color'', PStr ''Blue''), (''secondary_colors'', PList [PStr ''White'']),
      (''design_style'', PStr ''Modern''), (''theme'', PStr ''Floral''),
      (''suitable_for'', PStr ''Bedroom'')]"

definition accepted_b :: pydict where
  "accepted_b =
     [(''primary_color'', PStr ''Red''), (''secondary_colors'', PList [PStr ''White'']),
      (''design_style'', PStr ''Modern''), (''theme'', PStr ''Floral''),
      (''suitable_for'', PStr ''Bedroom'')]"

definition sig_a :: string where
  \<open>sig_a =
     ''{"design_style": "Modern", "primary_color": "Blue", "secondary_colors": ["White"], "suitable_for": "Bedroom", "theme": "Floral"}''\<close>

definition sig_b :: string where
  \<open>sig_b =
     ''{"design_style": "Modern", "primary_color": "Red", "secondary_colors": ["White"], "suitable_for": "Bedroom", "theme": "Floral"}''\<close>

definition walk_lib :: pylib where
  \<open>walk_lib =
     table_lib
       [(walk_text, PDict invalid_meta)]
       [(PDict accepted_a, sig_a), (PDict accepted_b, sig_b),
        (PList [PStr ''White''], ''["White"]'')]
       [(PList [PStr ''Neon'', PStr ''Mauve''],
         ''['' @ [CHR 0x27] @ ''Neon'' @ [CHR 0x27] @ '', '' @ [CHR 0x27] @ ''Mauve'' @ [CHR 0x27] @ '']'')]\<close>

definition accept_inputs :: inputs where
  "accept_inputs = idle_inputs \<lparr> btn_accept := True \<rparr>"

definition generate_inputs :: inputs where
  "generate_inputs =
     idle_inputs \<lparr> btn_generate := True,
                   generate_resp := Inr (Some ''A blue wallpaper with floral motifs. '') \<rparr>"

definition save_inputs :: inputs where
  "save_inputs = idle_inputs \<lparr> btn_save := True, now := 7 \<rparr>"

definition walk_s1 :: session where
  "walk_s1 =
     \<lparr> draft_meta = Some invalid_meta, accepted_meta = None, meta_dirty = False,
       description = [], desc_based_on_meta = None \<rparr>"

definition walk_s2 :: session where
  "walk_s2 =
     \<lparr> draft_meta = Some invalid_meta, accepted_meta = Some accepted_a, meta_dirty = False,
       description = [], desc_based_on_meta = None \<rparr>"

definition walk_s3 :: session where
  "walk_s3 =
     \<lparr> draft_meta = Some invalid_meta, accepted_meta = Some accepted_a, meta_dirty = False,
       description = ''A blue wallpaper with floral motifs.'',
       desc_based_on_meta = Some sig_a \<rparr>"

definition walk_s4 :: session where
  "walk_s4 =
     \<lparr> draft_meta = Some invalid_meta, accepted_meta = Some accepted_b, meta_dirty = False,
       description = ''A blue wallpaper with floral motifs.'',
       desc_based_on_meta = Some sig_a \<rparr>"

definition save_typed_inputs :: inputs where
  "save_typed_inputs =
     idle_inputs \<lparr> swatch_id_input := ''  '', btn_save := True, now := 7,
                   txt_description := Some ''  A calm blue wallpaper. '' \<rparr>"

text \<open>No edit control has been touched: each shows its default.\<close>

definition untouched :: "inputs \<Rightarrow> bool" where
  "untouched inp =
     (sel_primary inp = None \<and> sel_secondary inp = None \<and> sel_design_style inp = None
      \<and> sel_theme inp = None \<and> txt_suitable_for inp = None)"

definition scenario_b_draft :: session where
  "scenario_b_draft =
     \<lparr> draft_meta = Some scenario_b_meta, accepted_meta = None, meta_dirty = False,
       description = [], desc_based_on_meta = None \<rparr>"

section \<open>Facts about the string functions\<close>

lemma py_find_ge: "- 1 \<le> py_find s c"
  by (induction s) (auto simp: Let_def)

lemma py_find_neg: "py_find s c = - 1 \<longleftrightarrow> c \<notin> set s"
proof (induction s)
  case Nil
  then show ?case by simp
next
  case (Cons x xs)
  have "- 1 \<le> py_find xs c" by (rule py_find_ge)
  then have "py_find xs c + 1 \<noteq> - 1" by linarith
  with Cons show ?case by (auto simp: Let_def)
qed

lemma py_find_first: "c \<notin> set pre \<Longrightarrow> py_find (pre @ c # post) c = int (length pre)"
  by (induction pre) (auto simp: Let_def)

lemma py_rfind_neg: "py_rfind s c = - 1 \<longleftrightarrow> c \<notin> set s"
proof -
  have "py_find (rev s) c = - 1 \<longleftrightarrow> c \<notin> set s"
    by (simp add: py_find_neg)
  moreover have "c \<in> set s \<Longrightarrow> py_find (rev s) c < int (length s)"
  proof -
    assume "c \<in> set s"
    then have "c \<in> set (rev s)" by simp
    then obtain pre post where sp: "rev s = pre @ c # post" "c \<notin> set pre"
      by (meson split_list_first)
    then have "py_find (rev s) c = int (length pre)" using py_find_first by metis
    moreover have "length (rev s) = length pre + Suc (length post)" using sp by simp
    ultimately show ?thesis by simp
  qed
  ultimately show ?thesis
    by (auto simp: py_rfind_def Let_def)
qed

lemma py_rfind_last: "c \<notin> set post \<Longrightarrow> py_rfind (pre @ c # post) c = int (length pre)"
proof -
  assume a: "c \<notin> set post"
  have "rev (pre @ c # post) = rev post @ c # rev pre" by simp
  moreover have "c \<notin> set (rev post)" using a by simp
  ultimately have "py_find (rev (pre @ c # post)) c = int (length post)"
    using py_find_first[of c "rev post" "rev pre"] by simp
  then show ?thesis by (simp add: py_rfind_def)
qed

lemma py_slice_nonneg: "0 \<le> i \<Longrightarrow> 0 \<le> j \<Longrightarrow> py_slice s i j = drop (nat i) (take (nat j) s)"
  by (auto simp: py_slice_def Let_def min_def)

lemma candidate_slice:
  assumes "ob \<notin> set pre" "c \<notin> set post"
  shows "py_slice (pre @ ob # mid @ c # post)
           (py_find (pre @ ob # mid @ c # post) ob)
           (py_rfind (pre @ ob # mid @ c # post) c + 1) = ob # mid @ [c]"
proof -
  have f: "py_find (pre @ ob # mid @ c # post) ob = int (length pre)"
    using assms(1) by (rule py_find_first)
  have "py_rfind ((pre @ ob # mid) @ c # post) c = int (length (pre @ ob # mid))"
    using assms(2) by (rule py_rfind_last)
  then have r: "py_rfind (pre @ ob # mid @ c # post) c = int (length pre + 1 + length mid)"
    by simp
  have n: "nat (int (length pre + 1 + length mid) + 1) = length pre + (length mid + 2)"
    by simp
  have "take (length pre + (length mid + 2)) (pre @ ob # mid @ c # post) = pre @ ob # mid @ [c]"
    by simp
  then have "drop (length pre) (take (length pre + (length mid + 2)) (pre @ ob # mid @ c # post))
             = ob # mid @ [c]"
    by simp
  then show ?thesis
    unfolding f r by (simp only: py_slice_nonneg n nat_int of_nat_0_le_iff add_nonneg_nonneg zero_le_one)
qed

lemma brace_guard:
  assumes "ob \<notin> set pre" "c \<notin> set post"
  shows "py_find (pre @ ob # mid @ c # post) ob \<noteq> - 1
       \<and> py_rfind (pre @ ob # mid @ c # post) c \<noteq> - 1
       \<and> py_rfind (pre @ ob # mid @ c # post) c > py_find (pre @ ob # mid @ c # post) ob"
proof -
  have f: "py_find (pre @ ob # mid @ c # post) ob = int (length pre)"
    using assms(1) by (rule py_find_first)
  have "py_rfind ((pre @ ob # mid) @ c # post) c = int (length (pre @ ob # mid))"
    using assms(2) by (rule py_rfind_last)
  then have r: "py_rfind (pre @ ob # mid @ c # post) c = int (length pre + 1 + length mid)"
    by simp
  show ?thesis unfolding f r by simp
qed

lemma py_find_split:
  "c \<in> set s \<Longrightarrow> \<exists>pre post. s = pre @ c # post \<and> c \<notin> set pre \<and> py_find s c = int (length pre)"
  by (metis py_find_first split_list_first)

lemma py_rfind_split:
  "c \<in> set s \<Longrightarrow> \<exists>pre post. s = pre @ c # post \<and> c \<notin> set post \<and> py_rfind s c = int (length pre)"
  by (metis py_rfind_last split_list_last)

lemma guard_gives_pair:
  assumes "py_find s ob \<noteq> - 1" "py_rfind s c \<noteq> - 1" "py_rfind s c > py_find s ob"
  shows "\<exists>pre mid post. s = pre @ ob # mid @ c # post \<and> ob \<notin> set pre \<and> c \<notin> set post"
proof -
  from assms(1) have "ob \<in> set s" by (simp add: py_find_neg)
  then obtain pre rest where 1: "s = pre @ ob # rest" "ob \<notin> set pre" "py_find s ob = int (length pre)"
    using py_find_split by blast
  from assms(2) have "c \<in> set s" by (simp add: py_rfind_neg)
  then obtain pre2 post where 2: "s = pre2 @ c # post" "c \<notin> set post" "py_rfind s c = int (length pre2)"
    using py_rfind_split by blast
  from assms(3) 1 2 have lt: "length pre < length pre2" by simp
  have "pre @ ob # rest = pre2 @ c # post" using 1 2 by simp
  then obtain us where "pre @ us = pre2 \<and> ob # rest = us @ c # post \<or> pre = pre2 @ us \<and> us @ ob # rest = c # post"
    by (auto simp: append_eq_append_conv2)
  with lt obtain us where us: "pre @ us = pre2" "ob # rest = us @ c # post" by auto
  with lt obtain mid where "us = ob # mid" by (cases us) auto
  with us have "s = pre @ ob # mid @ c # post" using 1 by simp
  with 1 2 show ?thesis by blast
qed

section \<open>Runs that leave the session alone\<close>

lemma run_noop:
  "\<not> btn_extract inp \<Longrightarrow> \<not> btn_accept inp \<Longrightarrow> accepted_meta s = None \<Longrightarrow>
   r_session (run lib cat inp s tbl) = s"
  by (auto simp: run_def extract_handler_def step1_def accept_handler_def halt_def
      split: option.splits sum.splits)

lemma extract_handler_failure:
  assumes "\<forall>meta. extract_metadata lib (extract_resp inp) \<noteq> Inr (PDict meta)"
  shows "fst (extract_handler lib inp s) = s"
  using assms by (auto simp: extract_handler_def split: sum.splits pyval.splits)

lemma save_handler_session: "r_session (save_handler lib inp a s tbl) = s"
  by (auto simp: save_handler_def Let_def split: sum.splits)

lemma step1_idle:
  assumes "\<not> btn_accept inp" "\<not> btn_generate inp"
    "text_input (description s) (txt_description inp) = description s"
  shows "r_session (step1 lib cat inp draft s tbl msgs) = s"
  using assms
  by (auto simp: step1_def step2_def accept_handler_def generate_handler_def halt_def Let_def
      save_handler_session split: sum.splits option.splits)

lemma run_failed_extract:
  assumes "\<forall>meta. extract_metadata lib (extract_resp inp) \<noteq> Inr (PDict meta)"
    "\<not> btn_accept inp" "\<not> btn_generate inp"
    "text_input (description s) (txt_description inp) = description s"
  shows "r_session (run lib cat inp s tbl) = s"
proof -
  obtain m0 where e: "extract_handler lib inp s = (s, m0)"
    using extract_handler_failure[OF assms(1), of s] by (cases "extract_handler lib inp s") auto
  show ?thesis
    unfolding run_def e using step1_idle[OF assms(2,3,4)]
    by (auto simp: halt_def split: option.splits)
qed

lemma map_of_setdefault:
  "map_of (setdefault k v d) k' =
     (if k' = k then (case map_of d k of None \<Rightarrow> Some v | Some w \<Rightarrow> Some w) else map_of d k')"
  by (auto simp: setdefault_def map_add_def split: option.splits)

lemma setdefault_prefix: "prefix d (setdefault k v d)"
  by (auto simp: setdefault_def split: option.splits)

lemma ensure_keys_prefix: "prefix meta (ensure_keys meta)"
  unfolding ensure_keys_def
  by (meson setdefault_prefix prefix_order.order_trans)

lemma map_of_ensure_keys:
  "map_of (ensure_keys meta) k =
     (case map_of meta k of
        Some v \<Rightarrow> Some v
      | None \<Rightarrow>
          if k = ''secondary_colors'' then Some (PList [])
          else if k \<in> {''primary_color'', ''design_style'', ''theme'', ''suitable_for''}
          then Some (PStr [])
          else None)"
  by (simp add: ensure_keys_def map_of_setdefault split: option.splits)

section \<open>Editing after Accept\<close>

text \<open>
  C2: in every state in which \<open>accepted_meta\<close> is set, editing a metadata control (the
  callback \<^verbatim>\<open>_mark_dirty\<close>, then the run of the script that follows it with no button
  pressed) clears \<open>accepted_meta\<close>, \<open>description\<close> and \<open>desc_based_on_meta\<close> and sets
  \<open>meta_dirty\<close>; in a state in which \<open>accepted_meta\<close> is not set, the edit changes
  nothing of the session.
\<close>

theorem edit_invalidates_accepted:
  "(accepted_meta s \<noteq> None \<longrightarrow>
      accepted_meta (mark_dirty s) = None \<and> description (mark_dirty s) = []
      \<and> desc_based_on_meta (mark_dirty s) = None \<and> meta_dirty (mark_dirty s)
      \<and> (\<not> btn_extract inp \<and> \<not> btn_accept inp \<longrightarrow>
           r_session (edit_run lib cat inp s tbl) = mark_dirty s))
   \<and> (accepted_meta s = None \<longrightarrow>
        mark_dirty s = s
        \<and> (\<not> btn_extract inp \<and> \<not> btn_accept inp \<longrightarrow>
             r_session (edit_run lib cat inp s tbl) = s))"
proof -
  have cleared: "accepted_meta (mark_dirty s) = None"
    by (simp add: mark_dirty_def)
  have rerun: "r_session (edit_run lib cat inp s tbl) = mark_dirty s"
    if "\<not> btn_extract inp" "\<not> btn_accept inp"
    unfolding edit_run_def using that cleared by (rule run_noop)
  have same: "mark_dirty s = s" if "accepted_meta s = None"
    using that by (simp add: mark_dirty_def)
  have fields: "description (mark_dirty s) = [] \<and> desc_based_on_meta (mark_dirty s) = None
                \<and> meta_dirty (mark_dirty s)" if "accepted_meta s \<noteq> None"
    using that by (simp add: mark_dirty_def)
  show ?thesis
    using cleared rerun same fields by auto
qed

theorem edit_invalidates_accepted_witness:
  "accepted_meta scenario_b_state \<noteq> None
   \<and> \<not> btn_extract (idle_inputs \<lparr> sel_primary := Some 2 \<rparr>)
   \<and> \<not> btn_accept (idle_inputs \<lparr> sel_primary := Some 2 \<rparr>)
   \<and> r_session (edit_run (table_lib [] [] []) example_catalog
                  (idle_inputs \<lparr> sel_primary := Some 2 \<rparr>) scenario_b_state [])
       = \<lparr> draft_meta = Some scenario_b_meta, accepted_meta = None, meta_dirty = True,
           description = [], desc_based_on_meta = None \<rparr>
   \<and> accepted_meta init_state = None
   \<and> r_session (edit_run (table_lib [] [] []) example_catalog
                  (idle_inputs \<lparr> sel_primary := Some 2 \<rparr>) init_state [])
       = init_state"
  using edit_invalidates_accepted [of scenario_b_state "idle_inputs \<lparr> sel_primary := Some 2 \<rparr>"
          "table_lib [] [] []" example_catalog "[]"]
        edit_invalidates_accepted [of init_state "idle_inputs \<lparr> sel_primary := Some 2 \<rparr>"
          "table_lib [] [] []" example_catalog "[]"]
  by (simp add: scenario_b_state_def idle_inputs_def init_state_def mark_dirty_def)

section \<open>Extraction\<close>

lemma draft_after_run:
  "draft_meta (r_session (run lib cat inp s tbl)) = draft_meta (fst (extract_handler lib inp s))"
  by (auto simp: run_def step1_def step2_def accept_handler_def generate_handler_def halt_def
      Let_def save_handler_session split: sum.splits option.splits prod.splits)

text \<open>
  C4: extraction strips the model's text and parses it. When the direct parse succeeds,
  \<^verbatim>\<open>_safe_json_load\<close> and with it \<^verbatim>\<open>extract_metadata\<close> return its result; when it fails and
  the text has an opening brace before a closing brace, they return the parse of the text
  from the first opening brace to the last closing brace, and a failure of that parse is
  the parse error they fail with; with no such braces they fail too, and so does
  \<^verbatim>\<open>extract_metadata\<close> when the call to the model raises. On a failure the Extract handler
  reports the error and leaves the session exactly as it was; so it does whenever
  extraction does not produce a dictionary, and so does the whole run when no other
  button is pressed and the description field shows the session's description.
\<close>

theorem extraction_parse_policy:
  "(json_loads lib raw = Some v \<longrightarrow>
      safe_json_load lib raw = Inr v
      \<and> (raw = py_strip (output_text_or_empty output_text) \<longrightarrow>
           extract_metadata lib (Inr output_text) = Inr v))
   \<and> (json_loads lib raw = None \<and> raw = pre @ CHR ''{'' # mid @ CHR ''}'' # post
        \<and> CHR ''{'' \<notin> set pre \<and> CHR ''}'' \<notin> set post \<longrightarrow>
        safe_json_load lib raw =
          (case json_loads lib (CHR ''{'' # mid @ [CHR ''}'']) of
             Some w \<Rightarrow> Inr w
           | None \<Rightarrow> Inl JSONDecodeError)
        \<and> (raw = py_strip (output_text_or_empty output_text) \<longrightarrow>
             extract_metadata lib (Inr output_text) =
               (case json_loads lib (CHR ''{'' # mid @ [CHR ''}'']) of
                  Some w \<Rightarrow> Inr w
                | None \<Rightarrow> Inl JSONDecodeError)))
   \<and> (json_loads lib raw = None
        \<and> (\<nexists>pre' mid' post'. raw = pre' @ CHR ''{'' # mid' @ CHR ''}'' # post') \<longrightarrow>
        safe_json_load lib raw = Inl (ValueError ''Could not parse JSON from model output.'')
        \<and> (raw = py_strip (output_text_or_empty output_text) \<longrightarrow>
             extract_metadata lib (Inr output_text)
               = Inl (ValueError ''Could not parse JSON from model output.'')))
   \<and> extract_metadata lib (Inl e) = Inl e
   \<and> (btn_extract inp \<and> extract_metadata lib (extract_resp inp) = Inl e' \<longrightarrow>
        extract_handler lib inp s = (s, [StErrorExn ''Metadata extraction failed: '' e']))
   \<and> ((\<forall>meta. extract_metadata lib (extract_resp inp) \<noteq> Inr (PDict meta)) \<longrightarrow>
        fst (extract_handler lib inp s) = s
        \<and> (\<not> btn_accept inp \<and> \<not> btn_generate inp
             \<and> text_input (description s) (txt_description inp) = description s \<longrightarrow>
             r_session (run lib cat inp s tbl) = s))"
proof -
  have em: "extract_metadata lib (Inr output_text) = safe_json_load lib raw"
    if "raw = py_strip (output_text_or_empty output_text)"
    using that by (simp add: extract_metadata_def)
  have direct: "safe_json_load lib raw = Inr v" if "json_loads lib raw = Some v"
    using that by (simp add: safe_json_load_def)
  have recover: "safe_json_load lib raw =
          (case json_loads lib (CHR ''{'' # mid @ [CHR ''}'']) of
             Some w \<Rightarrow> Inr w
           | None \<Rightarrow> Inl JSONDecodeError)"
    if n: "json_loads lib raw = None" and t: "raw = pre @ CHR ''{'' # mid @ CHR ''}'' # post"
      and a: "CHR ''{'' \<notin> set pre" and b: "CHR ''}'' \<notin> set post"
  proof -
    have g: "py_find raw CHR ''{'' \<noteq> - 1 \<and> py_rfind raw CHR ''}'' \<noteq> - 1
             \<and> py_rfind raw CHR ''}'' > py_find raw CHR ''{''"
      unfolding t using a b by (rule brace_guard)
    have c: "py_slice raw (py_find raw CHR ''{'') (py_rfind raw CHR ''}'' + 1)
             = CHR ''{'' # mid @ [CHR ''}'']"
      unfolding t using a b by (rule candidate_slice)
    show ?thesis
      using n g c by (simp add: safe_json_load_def Let_def)
  qed
  have nobrace: "safe_json_load lib raw = Inl (ValueError ''Could not parse JSON from model output.'')"
    if n: "json_loads lib raw = None"
      and no: "\<nexists>pre' mid' post'. raw = pre' @ CHR ''{'' # mid' @ CHR ''}'' # post'"
  proof -
    have "\<not> (py_find raw CHR ''{'' \<noteq> - 1 \<and> py_rfind raw CHR ''}'' \<noteq> - 1
             \<and> py_rfind raw CHR ''}'' > py_find raw CHR ''{'')"
      using guard_gives_pair[of raw "CHR ''{''" "CHR ''}''"] no by blast
    then show ?thesis
      using n by (auto simp: safe_json_load_def Let_def)
  qed
  have api: "extract_metadata lib (Inl e) = Inl e"
    by (simp add: extract_metadata_def)
  have handler: "extract_handler lib inp s = (s, [StErrorExn ''Metadata extraction failed: '' e'])"
    if "btn_extract inp" "extract_metadata lib (extract_resp inp) = Inl e'"
    using that by (simp add: extract_handler_def)
  have unchanged: "fst (extract_handler lib inp s) = s"
    if "\<forall>meta. extract_metadata lib (extract_resp inp) \<noteq> Inr (PDict meta)"
    using that by (rule extract_handler_failure)
  have rerun: "r_session (run lib cat inp s tbl) = s"
    if "\<forall>meta. extract_metadata lib (extract_resp inp) \<noteq> Inr (PDict meta)"
      "\<not> btn_accept inp" "\<not> btn_generate inp"
      "text_input (description s) (txt_description inp) = description s"
    using that by (rule run_failed_extract)
  have c1: "json_loads lib raw = Some v \<longrightarrow>
      safe_json_load lib raw = Inr v
      \<and> (raw = py_strip (output_text_or_empty output_text) \<longrightarrow>
           extract_metadata lib (Inr output_text) = Inr v)"
  proof (intro impI conjI)
    assume "json_loads lib raw = Some v"
    then show r: "safe_json_load lib raw = Inr v" by (rule direct)
    assume "raw = py_strip (output_text_or_empty output_text)"
    then show "extract_metadata lib (Inr output_text) = Inr v"
      using em r by simp
  qed
  have c2: "json_loads lib raw = None \<and> raw = pre @ CHR ''{'' # mid @ CHR ''}'' # post
        \<and> CHR ''{'' \<notin> set pre \<and> CHR ''}'' \<notin> set post \<longrightarrow>
        safe_json_load lib raw =
          (case json_loads lib (CHR ''{'' # mid @ [CHR ''}'']) of
             Some w \<Rightarrow> Inr w
           | None \<Rightarrow> Inl JSONDecodeError)
        \<and> (raw = py_strip (output_text_or_empty output_text) \<longrightarrow>
             extract_metadata lib (Inr output_text) =
               (case json_loads lib (CHR ''{'' # mid @ [CHR ''}'']) of
                  Some w \<Rightarrow> Inr w
                | None \<Rightarrow> Inl JSONDecodeError))"
  proof (intro impI conjI)
    assume h: "json_loads lib raw = None \<and> raw = pre @ CHR ''{'' # mid @ CHR ''}'' # post
        \<and> CHR ''{'' \<notin> set pre \<and> CHR ''}'' \<notin> set post"
    then show r: "safe_json_load lib raw =
          (case json_loads lib (CHR ''{'' # mid @ [CHR ''}'']) of
             Some w \<Rightarrow> Inr w
           | None \<Rightarrow> Inl JSONDecodeError)"
      using recover by blast
    assume "raw = py_strip (output_text_or_empty output_text)"
    then show "extract_metadata lib (Inr output_text) =
               (case json_loads lib (CHR ''{'' # mid @ [CHR ''}'']) of
                  Some w \<Rightarrow> Inr w
                | None \<Rightarrow> Inl JSONDecodeError)"
      using em r by simp
  qed
  have c3: "json_loads lib raw = None
        \<and> (\<nexists>pre' mid' post'. raw = pre' @ CHR ''{'' # mid' @ CHR ''}'' # post') \<longrightarrow>
        safe_json_load lib raw = Inl (ValueError ''Could not parse JSON from model output.'')
        \<and> (raw = py_strip (output_text_or_empty output_text) \<longrightarrow>
             extract_metadata lib (Inr output_text)
               = Inl (ValueError ''Could not parse JSON from model output.''))"
  proof (intro impI conjI)
    assume h: "json_loads lib raw = None
        \<and> (\<nexists>pre' mid' post'. raw = pre' @ CHR ''{'' # mid' @ CHR ''}'' # post')"
    then show r: "safe_json_load lib raw
        = Inl (ValueError ''Could not parse JSON from model output.'')"
      using nobrace by blast
    assume "raw = py_strip (output_text_or_empty output_text)"
    then show "extract_metadata lib (Inr output_text)
               = Inl (ValueError ''Could not parse JSON from model output.'')"
      using em r by simp
  qed
  have c5: "btn_extract inp \<and> extract_metadata lib (extract_resp inp) = Inl e' \<longrightarrow>
        extract_handler lib inp s = (s, [StErrorExn ''Metadata extraction failed: '' e'])"
    using handler by blast
  have c6: "(\<forall>meta. extract_metadata lib (extract_resp inp) \<noteq> Inr (PDict meta)) \<longrightarrow>
        fst (extract_handler lib inp s) = s
        \<and> (\<not> btn_accept inp \<and> \<not> btn_generate inp
             \<and> text_input (description s) (txt_description inp) = description s \<longrightarrow>
             r_session (run lib cat inp s tbl) = s)"
    using unchanged rerun by blast
  show ?thesis
    by (intro conjI) (rule c1 c2 c3 api c5 c6)+
qed

lemma sd_split: \<open>scenario_d_text = ''Here you go: '' @ CHR ''{'' # ''"primary_color":"Red"'' @ CHR ''}'' # '' thanks''\<close>
  by (simp add: scenario_d_text_def)

theorem extraction_parse_policy_witness:
  \<open>py_strip (output_text_or_empty (Some scenario_d_response)) = scenario_d_text
   \<and> json_loads scenario_d_lib scenario_d_text = None
   \<and> extract_metadata scenario_d_lib (Inr (Some scenario_d_response))
       = Inr (PDict [(''primary_color'', PStr ''Red'')])
   \<and> json_loads scenario_d_lib ''[1, 2]'' = Some (PList [PInt 1, PInt 2])
   \<and> extract_metadata scenario_d_lib (Inr (Some ''[1, 2]'')) = Inr (PList [PInt 1, PInt 2])
   \<and> json_loads scenario_d_lib ''{oops}'' = None
   \<and> extract_metadata scenario_d_lib (Inr (Some ''{oops}'')) = Inl JSONDecodeError
   \<and> json_loads scenario_d_lib ''no json here'' = None
   \<and> extract_metadata scenario_d_lib (Inr (Some ''no json here''))
       = Inl (ValueError ''Could not parse JSON from model output.'')
   \<and> btn_extract (extract_inputs ''no json here'')
   \<and> extract_handler scenario_d_lib (extract_inputs ''no json here'') scenario_b_state
       = (scenario_b_state,
          [StErrorExn ''Metadata extraction failed: ''
             (ValueError ''Could not parse JSON from model output.'')])
   \<and> r_session (run scenario_d_lib example_catalog (extract_inputs ''no json here'')
                  scenario_b_state []) = scenario_b_state\<close>
proof -
  have st: \<open>py_strip (output_text_or_empty (Some scenario_d_response)) = scenario_d_text\<close>
    by (simp add: output_text_or_empty_def scenario_d_response_def scenario_d_text_def
        py_strip_def py_isspace_def)
  have st1: \<open>py_strip (output_text_or_empty (Some ''[1, 2]'')) = ''[1, 2]''\<close>
    \<open>py_strip (output_text_or_empty (Some ''{oops}'')) = ''{oops}''\<close>
    \<open>py_strip (output_text_or_empty (Some ''no json here'')) = ''no json here''\<close>
    by (simp_all add: output_text_or_empty_def py_strip_def py_isspace_def)
  have l1: \<open>json_loads scenario_d_lib ''[1, 2]'' = Some (PList [PInt 1, PInt 2])\<close>
    by (simp add: scenario_d_lib_def table_lib_def)
  have 1: \<open>extract_metadata scenario_d_lib (Inr (Some ''[1, 2]'')) = Inr (PList [PInt 1, PInt 2])\<close>
    using extraction_parse_policy [where lib = scenario_d_lib and raw = \<open>''[1, 2]''\<close>
        and v = "PList [PInt 1, PInt 2]" and output_text = \<open>Some ''[1, 2]''\<close>] l1
    by (simp add: st1(1))
  have n: "json_loads scenario_d_lib scenario_d_text = None"
    by (simp add: scenario_d_lib_def table_lib_def scenario_d_text_def)
  have m: \<open>json_loads scenario_d_lib (CHR ''{'' # ''"primary_color":"Red"'' @ [CHR ''}''])
           = Some (PDict [(''primary_color'', PStr ''Red'')])\<close>
    by (simp add: scenario_d_lib_def table_lib_def)
  have 2: \<open>extract_metadata scenario_d_lib (Inr (Some scenario_d_response))
           = Inr (PDict [(''primary_color'', PStr ''Red'')])\<close>
    using extraction_parse_policy [where lib = scenario_d_lib and raw = scenario_d_text
        and pre = \<open>''Here you go: ''\<close> and mid = \<open>''"primary_color":"Red"''\<close>
        and post = \<open>'' thanks''\<close> and output_text = \<open>Some scenario_d_response\<close>]
      n sd_split m
    by (simp add: st)
  have no: \<open>json_loads scenario_d_lib ''{oops}'' = None\<close>
    \<open>json_loads scenario_d_lib (CHR ''{'' # ''oops'' @ [CHR ''}'']) = None\<close>
    by (simp_all add: scenario_d_lib_def table_lib_def)
  have 3: \<open>extract_metadata scenario_d_lib (Inr (Some ''{oops}'')) = Inl JSONDecodeError\<close>
    using extraction_parse_policy [where lib = scenario_d_lib and raw = \<open>''{oops}''\<close>
        and pre = \<open>[]\<close> and mid = \<open>''oops''\<close>
        and post = \<open>[]\<close> and output_text = \<open>Some ''{oops}''\<close>]
      no
    by (simp add: st1(2))
  have n3: \<open>json_loads scenario_d_lib ''no json here'' = None\<close>
    by (simp add: scenario_d_lib_def table_lib_def)
  have nb: \<open>\<nexists>pre' mid' post'. ''no json here'' = pre' @ CHR ''{'' # mid' @ CHR ''}'' # post'\<close>
  proof
    assume \<open>\<exists>pre' mid' post'. ''no json here'' = pre' @ CHR ''{'' # mid' @ CHR ''}'' # post'\<close>
    then obtain pre' mid' post' where \<open>''no json here'' = pre' @ CHR ''{'' # mid' @ CHR ''}'' # post'\<close>
      by blast
    then have \<open>CHR ''{'' \<in> set ''no json here''\<close>
      by (metis in_set_conv_decomp)
    then show False by simp
  qed
  have 4: \<open>extract_metadata scenario_d_lib (Inr (Some ''no json here''))
       = Inl (ValueError ''Could not parse JSON from model output.'')\<close>
    using extraction_parse_policy [where lib = scenario_d_lib and raw = \<open>''no json here''\<close>
        and output_text = \<open>Some ''no json here''\<close>] n3 nb
    by (simp add: st1(3))
  have b: \<open>btn_extract (extract_inputs ''no json here'')\<close>
    by (simp add: extract_inputs_def)
  have r: \<open>extract_resp (extract_inputs ''no json here'') = Inr (Some ''no json here'')\<close>
    by (simp add: extract_inputs_def)
  have 5: \<open>extract_handler scenario_d_lib (extract_inputs ''no json here'') scenario_b_state
       = (scenario_b_state,
          [StErrorExn ''Metadata extraction failed: ''
             (ValueError ''Could not parse JSON from model output.'')])\<close>
    using extraction_parse_policy [where lib = scenario_d_lib
        and inp = \<open>extract_inputs ''no json here''\<close> and s = scenario_b_state
        and e' = \<open>ValueError ''Could not parse JSON from model output.''\<close>] b 4
    by (simp add: r)
  have 6: \<open>r_session (run scenario_d_lib example_catalog (extract_inputs ''no json here'')
                  scenario_b_state []) = scenario_b_state\<close>
    using extraction_parse_policy [where lib = scenario_d_lib
        and inp = \<open>extract_inputs ''no json here''\<close> and s = scenario_b_state
        and cat = example_catalog and tbl = "[]"] 4
    by (simp add: r extract_inputs_def idle_inputs_def text_input_def)
  show ?thesis
    using st n 2 l1 1 no(1) 3 n3 4 b 5 6 by (intro conjI)
qed

lemma extract_handler_success:
  assumes "btn_extract inp" "extract_metadata lib (extract_resp inp) = Inr (PDict meta)"
  shows "fst (extract_handler lib inp s) =
           s \<lparr> draft_meta := Some (ensure_keys meta), accepted_meta := None,
               meta_dirty := False, description := [], desc_based_on_meta := None \<rparr>"
  using assms by (simp add: extract_handler_def)

text \<open>
  C5: when extraction returns a dictionary, the draft of the session is that dictionary
  with every missing one of the five keys added: \<open>primary_color\<close>, \<open>design_style\<close>,
  \<open>theme\<close> and \<open>suitable_for\<close> as the empty string, \<open>secondary_colors\<close> as the empty
  list, never as \<^verbatim>\<open>None\<close>; every key that was present keeps its value and its place,
  a list of secondary colours with its order and duplicates.
\<close>

theorem extraction_defaults_missing_keys:
  assumes "btn_extract inp" "extract_metadata lib (extract_resp inp) = Inr (PDict meta)"
  shows "\<exists>d. draft_meta (r_session (run lib cat inp s tbl)) = Some d
     \<and> prefix meta d
     \<and> (\<forall>k v. map_of meta k = Some v \<longrightarrow> map_of d k = Some v)
     \<and> (\<forall>k \<in> {''primary_color'', ''design_style'', ''theme'', ''suitable_for''}.
           map_of meta k = None \<longrightarrow> map_of d k = Some (PStr []))
     \<and> (map_of meta ''secondary_colors'' = None \<longrightarrow> map_of d ''secondary_colors'' = Some (PList []))
     \<and> (\<forall>k \<in> {''primary_color'', ''secondary_colors'', ''design_style'', ''theme'',
                 ''suitable_for''}. map_of d k \<noteq> None \<and> (map_of meta k = None \<longrightarrow> map_of d k \<noteq> Some PNone))"
proof -
  have d: "draft_meta (r_session (run lib cat inp s tbl)) = Some (ensure_keys meta)"
    using extract_handler_success[OF assms, of s] by (simp add: draft_after_run)
  have p: "prefix meta (ensure_keys meta)" by (rule ensure_keys_prefix)
  have k: "\<forall>k v. map_of meta k = Some v \<longrightarrow> map_of (ensure_keys meta) k = Some v"
    by (simp add: map_of_ensure_keys)
  have m: "\<forall>k \<in> {''primary_color'', ''design_style'', ''theme'', ''suitable_for''}.
           map_of meta k = None \<longrightarrow> map_of (ensure_keys meta) k = Some (PStr [])"
    by (simp add: map_of_ensure_keys)
  have sc: "map_of meta ''secondary_colors'' = None \<longrightarrow>
            map_of (ensure_keys meta) ''secondary_colors'' = Some (PList [])"
    by (simp add: map_of_ensure_keys)
  have nn: "\<forall>k \<in> {''primary_color'', ''secondary_colors'', ''design_style'', ''theme'',
                 ''suitable_for''}. map_of (ensure_keys meta) k \<noteq> None
             \<and> (map_of meta k = None \<longrightarrow> map_of (ensure_keys meta) k \<noteq> Some PNone)"
    by (simp add: map_of_ensure_keys split: option.splits)
  show ?thesis
    by (rule exI[of _ "ensure_keys meta"]) (intro conjI d p k m sc nn)
qed

theorem extraction_defaults_missing_keys_witness:
  "btn_extract (extract_inputs scenario_a_text)
   \<and> extract_metadata scenario_a_lib (extract_resp (extract_inputs scenario_a_text))
       = Inr (PDict scenario_a_meta)
   \<and> map_of scenario_a_meta ''suitable_for'' = None
   \<and> (\<exists>d. draft_meta (r_session (run scenario_a_lib example_catalog
                                   (extract_inputs scenario_a_text) init_state [])) = Some d
          \<and> map_of d ''suitable_for'' = Some (PStr [])
          \<and> map_of d ''secondary_colors''
              = Some (PList [PStr ''White'', PStr ''White'', PStr ''Grey'']))"
proof -
  have b: "btn_extract (extract_inputs scenario_a_text)"
    by (simp add: extract_inputs_def)
  have s: "py_strip scenario_a_text = scenario_a_text"
    by (simp add: py_strip_def py_isspace_def scenario_a_text_def)
  have e: "extract_metadata scenario_a_lib (extract_resp (extract_inputs scenario_a_text))
       = Inr (PDict scenario_a_meta)"
    by (simp add: extract_metadata_def extract_inputs_def output_text_or_empty_def s
        safe_json_load_def scenario_a_lib_def table_lib_def)
  have m: "map_of scenario_a_meta ''suitable_for'' = None"
    "map_of scenario_a_meta ''secondary_colors''
       = Some (PList [PStr ''White'', PStr ''White'', PStr ''Grey''])"
    by (simp_all add: scenario_a_meta_def)
  show ?thesis
  proof -
    obtain d where d: "draft_meta (r_session (run scenario_a_lib example_catalog
                                   (extract_inputs scenario_a_text) init_state [])) = Some d"
      and keep: "\<forall>k v. map_of scenario_a_meta k = Some v \<longrightarrow> map_of d k = Some v"
      and dflt: "\<forall>k \<in> {''primary_color'', ''design_style'', ''theme'', ''suitable_for''}.
           map_of scenario_a_meta k = None \<longrightarrow> map_of d k = Some (PStr [])"
      using extraction_defaults_missing_keys [OF b e, of example_catalog init_state "[]"]
      by blast
    have 1: "map_of d ''suitable_for'' = Some (PStr [])"
      using dflt m(1) by simp
    have 2: "map_of d ''secondary_colors''
              = Some (PList [PStr ''White'', PStr ''White'', PStr ''Grey''])"
      using keep m(2) by blast
    show ?thesis using b e m(1) d 1 2 by blast
  qed
qed

section \<open>The validator\<close>

lemma in_set_Inr: "in_set v S = Inr b \<Longrightarrow> b = is_member v S"
  by (auto simp: in_set_def is_member_def split: if_splits)

lemma in_set_Inl: "in_set v S = Inl e \<Longrightarrow> \<not> is_member v S"
  by (cases v) (auto simp: in_set_def is_member_def split: if_splits)

lemma in_set_cases:
  "(in_set v S = Inr (is_member v S)) \<or> (in_set v S = Inl TypeError \<and> \<not> is_member v S)"
  by (cases v) (auto simp: in_set_def is_member_def)

lemma bad_values_Inr:
  "bad_values xs S = Inr bad \<Longrightarrow> bad = filter (\<lambda>x. \<not> is_member x S) xs"
proof (induction xs arbitrary: bad)
  case Nil
  then show ?case by simp
next
  case (Cons x xs)
  from Cons.prems obtain b rest where b: "in_set x S = Inr b" and r: "bad_values xs S = Inr rest"
    and e: "bad = (if b then rest else x # rest)"
    by (auto simp: ebind_def split: sum.splits)
  from r have "rest = filter (\<lambda>x. \<not> is_member x S) xs" by (rule Cons.IH)
  with e in_set_Inr[OF b] show ?case by simp
qed

lemma bad_values_Inl:
  "bad_values xs S = Inl e \<Longrightarrow> \<not> list_all (\<lambda>x. is_member x S) xs"
proof (induction xs)
  case Nil
  then show ?case by simp
next
  case (Cons x xs)
  then show ?case
    by (auto simp: ebind_def split: sum.splits dest: in_set_Inl)
qed

lemma filter_bad_empty:
  "filter (\<lambda>x. \<not> is_member x S) xs = [] \<longleftrightarrow> list_all (\<lambda>x. is_member x S) xs"
  by (induction xs) auto

lemma secondary_errs_empty:
  "secondary_errs lib sc S = Inr [] \<longleftrightarrow>
     (case sc of PList xs \<Rightarrow> list_all (\<lambda>x. is_member x S) xs | _ \<Rightarrow> False)"
proof (cases sc)
  case (PList xs)
  show ?thesis
  proof (cases "bad_values xs S")
    case (Inl e)
    then show ?thesis
      using bad_values_Inl[OF Inl] by (simp add: secondary_errs_def PList ebind_def)
  next
    case (Inr bad)
    then show ?thesis
      using bad_values_Inr[OF Inr] filter_bad_empty[of S xs]
      by (auto simp: secondary_errs_def PList ebind_def)
  qed
qed (simp_all add: secondary_errs_def)

lemma secondary_errs_msgs:
  "secondary_errs lib (PList xs) S = Inr errs2 \<Longrightarrow>
     errs2 = (if filter (\<lambda>x. \<not> is_member x S) xs \<noteq> []
              then [''secondary_colors invalid values: ''
                    @ py_str lib (PList (filter (\<lambda>x. \<not> is_member x S) xs))]
              else [])"
  by (auto simp: secondary_errs_def ebind_def split: sum.splits dest: bad_values_Inr)

lemma validate_Inr:
  assumes "validate_categorical lib r C D T = Inr errs"
  shows "\<exists>errs2. secondary_errs lib (dict_get r ''secondary_colors'') C = Inr errs2
     \<and> errs =
        (if \<not> is_member (dict_get r ''primary_color'') C
         then [''primary_color not in options: '' @ py_str lib (dict_get r ''primary_color'')]
         else [])
        @ errs2
        @ (if \<not> is_member (dict_get r ''design_style'') D
           then [''design_style not in options: '' @ py_str lib (dict_get r ''design_style'')]
           else [])
        @ (if \<not> is_member (dict_get r ''theme'') T
           then [''theme not in options: '' @ py_str lib (dict_get r ''theme'')]
           else [])"
proof -
  from assms obtain a errs2 b c where
    a: "in_set (dict_get r ''primary_color'') C = Inr a"
    and s: "secondary_errs lib (dict_get r ''secondary_colors'') C = Inr errs2"
    and b: "in_set (dict_get r ''design_style'') D = Inr b"
    and c: "in_set (dict_get r ''theme'') T = Inr c"
    and e: "errs =
        (if \<not> a
         then [''primary_color not in options: '' @ py_str lib (dict_get r ''primary_color'')]
         else [])
        @ errs2
        @ (if \<not> b
           then [''design_style not in options: '' @ py_str lib (dict_get r ''design_style'')]
           else [])
        @ (if \<not> c
           then [''theme not in options: '' @ py_str lib (dict_get r ''theme'')]
           else [])"
    unfolding validate_categorical_def Let_def ebind_def
    by (auto split: sum.splits)
  show ?thesis
    using s e in_set_Inr[OF a] in_set_Inr[OF b] in_set_Inr[OF c] by blast
qed

lemma validate_empty:
  "validate_categorical lib r C D T = Inr [] \<longleftrightarrow> valid_record r C D T"
proof
  assume v: "validate_categorical lib r C D T = Inr []"
  from validate_Inr[OF v] obtain errs2 where
    s: "secondary_errs lib (dict_get r ''secondary_colors'') C = Inr errs2"
    and e: "[] =
        (if \<not> is_member (dict_get r ''primary_color'') C
         then [''primary_color not in options: '' @ py_str lib (dict_get r ''primary_color'')]
         else [])
        @ errs2
        @ (if \<not> is_member (dict_get r ''design_style'') D
           then [''design_style not in options: '' @ py_str lib (dict_get r ''design_style'')]
           else [])
        @ (if \<not> is_member (dict_get r ''theme'') T
           then [''theme not in options: '' @ py_str lib (dict_get r ''theme'')]
           else [])"
    by blast
  from e have m: "is_member (dict_get r ''primary_color'') C"
    "is_member (dict_get r ''design_style'') D" "is_member (dict_get r ''theme'') T"
    and e2: "errs2 = []"
    by (auto split: if_splits)
  from s e2 have "case dict_get r ''secondary_colors'' of
            PList xs \<Rightarrow> list_all (\<lambda>x. is_member x C) xs | _ \<Rightarrow> False"
    by (simp add: secondary_errs_empty)
  with m show "valid_record r C D T" by (simp add: valid_record_def)
next
  assume v: "valid_record r C D T"
  then have m: "is_member (dict_get r ''primary_color'') C"
    "is_member (dict_get r ''design_style'') D" "is_member (dict_get r ''theme'') T"
    and sc: "case dict_get r ''secondary_colors'' of
            PList xs \<Rightarrow> list_all (\<lambda>x. is_member x C) xs | _ \<Rightarrow> False"
    by (simp_all add: valid_record_def)
  from sc have s: "secondary_errs lib (dict_get r ''secondary_colors'') C = Inr []"
    by (simp add: secondary_errs_empty)
  have i: "in_set (dict_get r ''primary_color'') C = Inr True"
    "in_set (dict_get r ''design_style'') D = Inr True"
    "in_set (dict_get r ''theme'') T = Inr True"
    using m in_set_cases[of "dict_get r ''primary_color''" C]
      in_set_cases[of "dict_get r ''design_style''" D]
      in_set_cases[of "dict_get r ''theme''" T] by auto
  show "validate_categorical lib r C D T = Inr []"
    unfolding validate_categorical_def Let_def by (simp add: i s ebind_def)
qed

lemma invalid_eval:
  "validate_categorical invalid_lib invalid_meta
       (set (color_opts example_catalog)) (set (design_opts example_catalog))
       (set (theme_opts example_catalog))
     = Inr [''primary_color not in options: Teal'',
            ''secondary_colors invalid values: ['' @ [CHR 0x27] @ ''Neon'' @ [CHR 0x27] @ '', '' @ [CHR 0x27] @ ''Mauve'' @ [CHR 0x27] @ '']'',
            ''theme not in options: Space'']"
  by (simp add: validate_categorical_def invalid_meta_def invalid_lib_def table_lib_def
      example_catalog_def dict_get_def in_set_def ebind_def secondary_errs_def py_str_def)


lemma secondary_errs_nonlist:
  "(\<forall>xs. sc \<noteq> PList xs) \<Longrightarrow>
   secondary_errs lib sc S = Inr [''secondary_colors must be a list'']"
  by (cases sc) (simp_all add: secondary_errs_def)

text \<open>
  C6 says that every message names the offending value. For a record whose
  \<open>secondary_colors\<close> is not a list the validator returns the fixed message below, in which
  the value, here the number 5, does not occur.
\<close>

theorem validate_names_no_value_for_non_list:
  "validate_categorical nonlist_lib nonlist_meta
       (set (color_opts example_catalog)) (set (design_opts example_catalog))
       (set (theme_opts example_catalog))
     = Inr [''secondary_colors must be a list'']
   \<and> dict_get nonlist_meta ''secondary_colors'' = PInt 5
   \<and> py_str nonlist_lib (PInt 5) = ''5''
   \<and> CHR ''5'' \<notin> set ''secondary_colors must be a list''"
  by (simp add: validate_categorical_def nonlist_meta_def nonlist_lib_def table_lib_def
      example_catalog_def dict_get_def in_set_def ebind_def secondary_errs_def py_str_def)

text \<open>
  C6, as amended: for every record and every three catalog sets,
  \<^verbatim>\<open>validate_categorical\<close> returns the empty list exactly when the record is valid in the
  sense of \<open>valid_record\<close>; and every message it returns consists of the name of the
  offending field, a fixed phrase, and the offending value of that field, for a list of
  secondary colours the list of its entries that are not colours, except that for a
  \<open>secondary_colors\<close> that is not a list the message is the fixed text
  \<^verbatim>\<open>secondary_colors must be a list\<close>, which names the field only.
\<close>

theorem validate_empty_iff_valid:
  "(validate_categorical lib r C D T = Inr [] \<longleftrightarrow> valid_record r C D T)
   \<and> (validate_categorical lib r C D T = Inr errs \<longrightarrow>
        (\<forall>m \<in> set errs.
           (\<not> is_member (dict_get r ''primary_color'') C
            \<and> m = ''primary_color not in options: '' @ py_str lib (dict_get r ''primary_color''))
         \<or> (\<exists>xs. dict_get r ''secondary_colors'' = PList xs
                \<and> filter (\<lambda>x. \<not> is_member x C) xs \<noteq> []
                \<and> m = ''secondary_colors invalid values: ''
                       @ py_str lib (PList (filter (\<lambda>x. \<not> is_member x C) xs)))
         \<or> ((\<forall>xs. dict_get r ''secondary_colors'' \<noteq> PList xs)
            \<and> m = ''secondary_colors must be a list'')
         \<or> (\<not> is_member (dict_get r ''design_style'') D
            \<and> m = ''design_style not in options: '' @ py_str lib (dict_get r ''design_style''))
         \<or> (\<not> is_member (dict_get r ''theme'') T
            \<and> m = ''theme not in options: '' @ py_str lib (dict_get r ''theme''))))"
proof (intro conjI impI ballI)
  show "validate_categorical lib r C D T = Inr [] \<longleftrightarrow> valid_record r C D T"
    by (rule validate_empty)
next
  fix m
  assume a: "validate_categorical lib r C D T = Inr errs"
    and m: "m \<in> set errs"
  from validate_Inr[OF a] obtain errs2 where
    s: "secondary_errs lib (dict_get r ''secondary_colors'') C = Inr errs2"
    and e: "errs =
        (if \<not> is_member (dict_get r ''primary_color'') C
         then [''primary_color not in options: '' @ py_str lib (dict_get r ''primary_color'')]
         else [])
        @ errs2
        @ (if \<not> is_member (dict_get r ''design_style'') D
           then [''design_style not in options: '' @ py_str lib (dict_get r ''design_style'')]
           else [])
        @ (if \<not> is_member (dict_get r ''theme'') T
           then [''theme not in options: '' @ py_str lib (dict_get r ''theme'')]
           else [])"
    by auto
  have e2: "m \<in> set errs2 \<Longrightarrow>
      (\<exists>xs. dict_get r ''secondary_colors'' = PList xs
                \<and> filter (\<lambda>x. \<not> is_member x C) xs \<noteq> []
                \<and> m = ''secondary_colors invalid values: ''
                       @ py_str lib (PList (filter (\<lambda>x. \<not> is_member x C) xs)))
      \<or> ((\<forall>xs. dict_get r ''secondary_colors'' \<noteq> PList xs)
            \<and> m = ''secondary_colors must be a list'')"
  proof (cases "\<exists>xs. dict_get r ''secondary_colors'' = PList xs")
    case True
    assume me: "m \<in> set errs2"
    from True obtain xs where xs: "dict_get r ''secondary_colors'' = PList xs" by blast
    from s have "errs2 = (if filter (\<lambda>x. \<not> is_member x C) xs \<noteq> []
              then [''secondary_colors invalid values: ''
                    @ py_str lib (PList (filter (\<lambda>x. \<not> is_member x C) xs))]
              else [])"
      unfolding xs by (rule secondary_errs_msgs)
    with me have "filter (\<lambda>x. \<not> is_member x C) xs \<noteq> []
        \<and> m = ''secondary_colors invalid values: ''
                       @ py_str lib (PList (filter (\<lambda>x. \<not> is_member x C) xs))"
      by (cases "filter (\<lambda>x. \<not> is_member x C) xs = []") simp_all
    with xs show ?thesis by blast
  next
    case False
    assume me: "m \<in> set errs2"
    from False have n: "\<forall>xs. dict_get r ''secondary_colors'' \<noteq> PList xs" by blast
    from secondary_errs_nonlist[OF n, of lib C] s
    have "errs2 = [''secondary_colors must be a list'']" by simp
    with me n show ?thesis by simp
  qed
  from m have "m \<in> set (if \<not> is_member (dict_get r ''primary_color'') C
         then [''primary_color not in options: '' @ py_str lib (dict_get r ''primary_color'')]
         else [])
      \<or> m \<in> set errs2
      \<or> m \<in> set (if \<not> is_member (dict_get r ''design_style'') D
           then [''design_style not in options: '' @ py_str lib (dict_get r ''design_style'')]
           else [])
      \<or> m \<in> set (if \<not> is_member (dict_get r ''theme'') T
           then [''theme not in options: '' @ py_str lib (dict_get r ''theme'')]
           else [])"
    unfolding e by (simp only: set_append Un_iff)
  then show "(\<not> is_member (dict_get r ''primary_color'') C
            \<and> m = ''primary_color not in options: '' @ py_str lib (dict_get r ''primary_color''))
         \<or> (\<exists>xs. dict_get r ''secondary_colors'' = PList xs
                \<and> filter (\<lambda>x. \<not> is_member x C) xs \<noteq> []
                \<and> m = ''secondary_colors invalid values: ''
                       @ py_str lib (PList (filter (\<lambda>x. \<not> is_member x C) xs)))
         \<or> ((\<forall>xs. dict_get r ''secondary_colors'' \<noteq> PList xs)
            \<and> m = ''secondary_colors must be a list'')
         \<or> (\<not> is_member (dict_get r ''design_style'') D
            \<and> m = ''design_style not in options: '' @ py_str lib (dict_get r ''design_style''))
         \<or> (\<not> is_member (dict_get r ''theme'') T
            \<and> m = ''theme not in options: '' @ py_str lib (dict_get r ''theme''))"
  proof (elim disjE)
    assume "m \<in> set (if \<not> is_member (dict_get r ''primary_color'') C
         then [''primary_color not in options: '' @ py_str lib (dict_get r ''primary_color'')]
         else [])"
    then have "\<not> is_member (dict_get r ''primary_color'') C
            \<and> m = ''primary_color not in options: '' @ py_str lib (dict_get r ''primary_color'')"
      by (cases "is_member (dict_get r ''primary_color'') C") simp_all
    then show ?thesis by blast
  next
    assume "m \<in> set errs2"
    from e2[OF this] show ?thesis by blast
  next
    assume "m \<in> set (if \<not> is_member (dict_get r ''design_style'') D
           then [''design_style not in options: '' @ py_str lib (dict_get r ''design_style'')]
           else [])"
    then have "\<not> is_member (dict_get r ''design_style'') D
            \<and> m = ''design_style not in options: '' @ py_str lib (dict_get r ''design_style'')"
      by (cases "is_member (dict_get r ''design_style'') D") simp_all
    then show ?thesis by blast
  next
    assume "m \<in> set (if \<not> is_member (dict_get r ''theme'') T
           then [''theme not in options: '' @ py_str lib (dict_get r ''theme'')]
           else [])"
    then have "\<not> is_member (dict_get r ''theme'') T
            \<and> m = ''theme not in options: '' @ py_str lib (dict_get r ''theme'')"
      by (cases "is_member (dict_get r ''theme'') T") simp_all
    then show ?thesis by blast
  qed
qed

theorem validate_empty_iff_valid_witness:
  "validate_categorical invalid_lib invalid_meta
       (set (color_opts example_catalog)) (set (design_opts example_catalog))
       (set (theme_opts example_catalog))
     = Inr [''primary_color not in options: Teal'',
            ''secondary_colors invalid values: ['' @ [CHR 0x27] @ ''Neon'' @ [CHR 0x27] @ '', '' @ [CHR 0x27] @ ''Mauve'' @ [CHR 0x27] @ '']'',
            ''theme not in options: Space'']
   \<and> dict_get invalid_meta ''secondary_colors'' = PList [PStr ''White'', PStr ''Neon'', PStr ''Mauve'']
   \<and> \<not> valid_record invalid_meta
         (set (color_opts example_catalog)) (set (design_opts example_catalog))
         (set (theme_opts example_catalog))
   \<and> valid_record scenario_b_meta
         (set (color_opts example_catalog)) (set (design_opts example_catalog))
         (set (theme_opts example_catalog))
   \<and> validate_categorical invalid_lib scenario_b_meta
         (set (color_opts example_catalog)) (set (design_opts example_catalog))
         (set (theme_opts example_catalog)) = Inr []"
proof -
  have sc: "dict_get invalid_meta ''secondary_colors'' = PList [PStr ''White'', PStr ''Neon'', PStr ''Mauve'']"
    by (simp add: invalid_meta_def dict_get_def)
  have nv: "\<not> valid_record invalid_meta
         (set (color_opts example_catalog)) (set (design_opts example_catalog))
         (set (theme_opts example_catalog))"
    using validate_empty_iff_valid [of invalid_lib invalid_meta
        "set (color_opts example_catalog)" "set (design_opts example_catalog)"
        "set (theme_opts example_catalog)"] invalid_eval
    by simp
  have vb: "valid_record scenario_b_meta
         (set (color_opts example_catalog)) (set (design_opts example_catalog))
         (set (theme_opts example_catalog))"
    by (simp add: valid_record_def scenario_b_meta_def dict_get_def is_member_def
        example_catalog_def)
  have eb: "validate_categorical invalid_lib scenario_b_meta
         (set (color_opts example_catalog)) (set (design_opts example_catalog))
         (set (theme_opts example_catalog)) = Inr []"
    using validate_empty_iff_valid [of invalid_lib scenario_b_meta
        "set (color_opts example_catalog)" "set (design_opts example_catalog)"
        "set (theme_opts example_catalog)"] vb
    by simp
  show ?thesis
    using invalid_eval sc nv vb eb by simp
qed

text \<open>
  C7 says that \<^verbatim>\<open>validate_categorical\<close> never raises, whatever the types of the fields.
  At a record whose \<open>primary_color\<close> is a list, which the model can answer and
  \<^verbatim>\<open>json.loads\<close> then returns, the membership test raises \<^verbatim>\<open>TypeError\<close>: the validator
  raises, and since the script calls it outside any \<^verbatim>\<open>try\<close>, this run and every later
  run of the script end there.
\<close>

theorem validate_raises_on_unhashable:
  "validate_categorical unhashable_lib unhashable_meta
       (set (color_opts example_catalog)) (set (design_opts example_catalog))
       (set (theme_opts example_catalog))
     = Inl TypeError
   \<and> extract_metadata unhashable_lib (extract_resp (extract_inputs unhashable_text))
       = Inr (PDict unhashable_meta)
   \<and> r_outcome (run unhashable_lib example_catalog (extract_inputs unhashable_text) init_state [])
       = Crashed TypeError
   \<and> r_outcome (run unhashable_lib example_catalog idle_inputs
                  (r_session (run unhashable_lib example_catalog (extract_inputs unhashable_text)
                                init_state [])) [])
       = Crashed TypeError"
proof -
  have v: "validate_categorical unhashable_lib unhashable_meta
       (set (color_opts example_catalog)) (set (design_opts example_catalog))
       (set (theme_opts example_catalog)) = Inl TypeError"
    by (simp add: validate_categorical_def unhashable_meta_def dict_get_def in_set_def ebind_def)
  have s: "py_strip unhashable_text = unhashable_text"
    by (simp add: py_strip_def py_isspace_def unhashable_text_def)
  have e: "extract_metadata unhashable_lib (extract_resp (extract_inputs unhashable_text))
       = Inr (PDict unhashable_meta)"
    by (simp add: extract_metadata_def extract_inputs_def output_text_or_empty_def s
        safe_json_load_def unhashable_lib_def table_lib_def)
  have k: "ensure_keys unhashable_meta = unhashable_meta"
    by (simp add: ensure_keys_def setdefault_def unhashable_meta_def)
  have h: "extract_handler unhashable_lib (extract_inputs unhashable_text) init_state
           = (init_state \<lparr> draft_meta := Some unhashable_meta \<rparr>, [])"
    using e by (simp add: extract_handler_def k extract_inputs_def init_state_def)
  have r1: "run unhashable_lib example_catalog (extract_inputs unhashable_text) init_state []
            = halt (init_state \<lparr> draft_meta := Some unhashable_meta \<rparr>) [] (Crashed TypeError) []"
    by (simp add: run_def h step1_def v)
  have h2: "extract_handler unhashable_lib idle_inputs (init_state \<lparr> draft_meta := Some unhashable_meta \<rparr>)
           = (init_state \<lparr> draft_meta := Some unhashable_meta \<rparr>, [])"
    by (simp add: extract_handler_def idle_inputs_def)
  have r2: "run unhashable_lib example_catalog idle_inputs (init_state \<lparr> draft_meta := Some unhashable_meta \<rparr>) []
            = halt (init_state \<lparr> draft_meta := Some unhashable_meta \<rparr>) [] (Crashed TypeError) []"
    by (simp add: run_def h2 step1_def v)
  show ?thesis
    using v e r1 r2 by (simp add: halt_def)
qed

section \<open>The upsert\<close>

lemma do_update_set_all:
  "conflicts old excluded \<Longrightarrow> col_updated_at excluded = t \<Longrightarrow>
   do_update_set old excluded t = excluded"
  by (cases old, cases excluded) (simp add: do_update_set_def conflicts_def)

lemma values_row_updated_at: "col_updated_at (values_row params t) = t"
  by (simp add: values_row_def)

lemma execute_upsert_alt:
  "execute_upsert params t tbl =
     (if list_ex (\<lambda>r. col_swatch_id r = col_swatch_id (values_row params t)) tbl
      then map (\<lambda>r. if col_swatch_id r = col_swatch_id (values_row params t)
                      then values_row params t else r) tbl
      else tbl @ [values_row params t])"
proof -
  have "(\<lambda>r. if conflicts r (values_row params t)
              then do_update_set r (values_row params t) t else r)
        = (\<lambda>r. if col_swatch_id r = col_swatch_id (values_row params t)
                 then values_row params t else r)"
    by (rule ext) (auto simp: conflicts_def do_update_set_all values_row_updated_at)
  then show ?thesis
    by (simp add: execute_upsert_def Let_def conflicts_def)
qed

lemma filter_key_distinct:
  "distinct (map g xs) \<Longrightarrow> list_ex (\<lambda>r. g r = k) xs \<Longrightarrow>
   \<exists>y. filter (\<lambda>r. g r = k) xs = [y]"
proof (induction xs)
  case Nil
  then show ?case by simp
next
  case (Cons x xs)
  show ?case
  proof (cases "g x = k")
    case True
    with Cons.prems(1) have "k \<notin> g ` set xs" by simp
    then have "\<forall>r \<in> set xs. g r \<noteq> k" by blast
    then have "filter (\<lambda>r. g r = k) xs = []" by (simp add: filter_empty_conv)
    with True show ?thesis by simp
  next
    case False
    with Cons show ?thesis by simp
  qed
qed

lemma execute_upsert_key:
  assumes "distinct (map col_swatch_id tbl)"
  shows "filter (\<lambda>r. col_swatch_id r = col_swatch_id (values_row params t))
           (execute_upsert params t tbl) = [values_row params t]"
proof (cases "list_ex (\<lambda>r. col_swatch_id r = col_swatch_id (values_row params t)) tbl")
  case True
  then obtain y where y: "filter (\<lambda>r. col_swatch_id r = col_swatch_id (values_row params t)) tbl = [y]"
    using filter_key_distinct[OF assms] by blast
  have "filter (\<lambda>r. col_swatch_id r = col_swatch_id (values_row params t))
          (map (\<lambda>r. if col_swatch_id r = col_swatch_id (values_row params t)
                      then values_row params t else r) tbl)
        = map (\<lambda>r. values_row params t)
            (filter (\<lambda>r. col_swatch_id r = col_swatch_id (values_row params t)) tbl)"
    by (induction tbl) auto
  with y True show ?thesis by (simp add: execute_upsert_alt)
next
  case False
  then have "filter (\<lambda>r. col_swatch_id r = col_swatch_id (values_row params t)) tbl = []"
    by (simp add: filter_empty_conv list_ex_iff)
  with False show ?thesis by (simp add: execute_upsert_alt)
qed

lemma execute_upsert_others:
  "k \<noteq> col_swatch_id (values_row params t) \<Longrightarrow>
   filter (\<lambda>r. col_swatch_id r = k) (execute_upsert params t tbl)
   = filter (\<lambda>r. col_swatch_id r = k) tbl"
proof -
  assume k: "k \<noteq> col_swatch_id (values_row params t)"
  have "filter (\<lambda>r. col_swatch_id r = k)
          (map (\<lambda>r. if col_swatch_id r = col_swatch_id (values_row params t)
                      then values_row params t else r) tbl)
        = filter (\<lambda>r. col_swatch_id r = k) tbl"
    using k by (induction tbl) auto
  with k show ?thesis by (simp add: execute_upsert_alt)
qed

lemma execute_upsert_distinct:
  assumes "distinct (map col_swatch_id tbl)"
  shows "distinct (map col_swatch_id (execute_upsert params t tbl))"
proof (cases "list_ex (\<lambda>r. col_swatch_id r = col_swatch_id (values_row params t)) tbl")
  case True
  define f where "f = (\<lambda>r. if col_swatch_id r = col_swatch_id (values_row params t)
                            then values_row params t else r)"
  have eq: "map col_swatch_id (map f tbl) = map col_swatch_id tbl"
    by (induction tbl) (auto simp: f_def)
  have "execute_upsert params t tbl = map f tbl"
    using True by (simp add: execute_upsert_alt f_def)
  then show ?thesis
    using assms eq by metis
next
  case False
  with assms show ?thesis by (auto simp: execute_upsert_alt list_ex_iff)
qed

lemma ebind_Inr: "ebind m f = Inr y \<Longrightarrow> \<exists>x. m = Inr x \<and> f x = Inr y"
  by (cases m) (simp_all add: ebind_def)

lemma dict_item_Inr: "dict_item d k = Inr v \<Longrightarrow> dict_get d k = v"
  by (simp add: dict_item_def dict_get_def split: option.splits)

lemma upsert_params_shape:
  assumes "upsert_params lib row = Inr params"
  shows "params =
     [(''swatch_id'', dict_get row ''swatch_id''),
      (''primary_color'', dict_get row ''primary_color''),
      (''secondary_colors'', PStr (json_dumps lib False False (dict_get row ''secondary_colors''))),
      (''design_style'', dict_get row ''design_style''),
      (''theme'', dict_get row ''theme''),
      (''suitable_for'', dict_get row ''suitable_for''),
      (''description'', dict_get row ''description''),
      (''image_filename'', dict_get row ''image_filename'')]"
proof -
  from ebind_Inr[OF assms[unfolded upsert_params_def Let_def]] obtain sc where sc: "dict_item row ''secondary_colors'' = Inr sc"
    and 1: "ebind (dict_item row ''swatch_id'') (\<lambda>sid.
        ebind (dict_item row ''primary_color'') (\<lambda>pc.
        ebind (dict_item row ''design_style'') (\<lambda>ds.
        ebind (dict_item row ''theme'') (\<lambda>th.
        Inr [(''swatch_id'', sid),
             (''primary_color'', pc),
             (''secondary_colors'', PStr (json_dumps lib False False sc)),
             (''design_style'', ds),
             (''theme'', th),
             (''suitable_for'', dict_get row ''suitable_for''),
             (''description'', dict_get row ''description''),
             (''image_filename'', dict_get row ''image_filename'')])))) = Inr params"
    by blast
  from ebind_Inr[OF 1] obtain sid where sid: "dict_item row ''swatch_id'' = Inr sid"
    and 2: "ebind (dict_item row ''primary_color'') (\<lambda>pc.
        ebind (dict_item row ''design_style'') (\<lambda>ds.
        ebind (dict_item row ''theme'') (\<lambda>th.
        Inr [(''swatch_id'', sid),
             (''primary_color'', pc),
             (''secondary_colors'', PStr (json_dumps lib False False sc)),
             (''design_style'', ds),
             (''theme'', th),
             (''suitable_for'', dict_get row ''suitable_for''),
             (''description'', dict_get row ''description''),
             (''image_filename'', dict_get row ''image_filename'')]))) = Inr params"
    by blast
  from ebind_Inr[OF 2] obtain pc where pc: "dict_item row ''primary_color'' = Inr pc"
    and 3: "ebind (dict_item row ''design_style'') (\<lambda>ds.
        ebind (dict_item row ''theme'') (\<lambda>th.
        Inr [(''swatch_id'', sid),
             (''primary_color'', pc),
             (''secondary_colors'', PStr (json_dumps lib False False sc)),
             (''design_style'', ds),
             (''theme'', th),
             (''suitable_for'', dict_get row ''suitable_for''),
             (''description'', dict_get row ''description''),
             (''image_filename'', dict_get row ''image_filename'')])) = Inr params"
    by blast
  from ebind_Inr[OF 3] obtain ds where ds: "dict_item row ''design_style'' = Inr ds"
    and 4: "ebind (dict_item row ''theme'') (\<lambda>th.
        Inr [(''swatch_id'', sid),
             (''primary_color'', pc),
             (''secondary_colors'', PStr (json_dumps lib False False sc)),
             (''design_style'', ds),
             (''theme'', th),
             (''suitable_for'', dict_get row ''suitable_for''),
             (''description'', dict_get row ''description''),
             (''image_filename'', dict_get row ''image_filename'')]) = Inr params"
    by blast
  from ebind_Inr[OF 4] obtain th where th: "dict_item row ''theme'' = Inr th"
    and 5: "params = [(''swatch_id'', sid),
             (''primary_color'', pc),
             (''secondary_colors'', PStr (json_dumps lib False False sc)),
             (''design_style'', ds),
             (''theme'', th),
             (''suitable_for'', dict_get row ''suitable_for''),
             (''description'', dict_get row ''description''),
             (''image_filename'', dict_get row ''image_filename'')]"
    by auto
  show ?thesis
    unfolding 5
    using dict_item_Inr[OF sc] dict_item_Inr[OF sid] dict_item_Inr[OF pc] dict_item_Inr[OF ds]
      dict_item_Inr[OF th]
    by (simp only:)
qed

lemma upsert_params_values:
  assumes "upsert_params lib row = Inr params"
  shows "values_row params t =
     \<lparr> col_swatch_id = dict_get row ''swatch_id'',
       col_primary_color = dict_get row ''primary_color'',
       col_secondary_colors = PStr (json_dumps lib False False (dict_get row ''secondary_colors'')),
       col_design_style = dict_get row ''design_style'',
       col_theme = dict_get row ''theme'',
       col_suitable_for = dict_get row ''suitable_for'',
       col_description = dict_get row ''description'',
       col_image_filename = dict_get row ''image_filename'',
       col_updated_at = t \<rparr>"
  unfolding upsert_params_shape[OF assms] values_row_def
  by (simp add: dict_get_def)

text \<open>
  C8: \<^verbatim>\<open>upsert_swatch\<close> executes one statement, and where the \<open>swatch_id\<close> is already in
  the table the statement overwrites every other column of that row with the value of the
  new payload and sets \<open>updated_at\<close> to the time of the statement. So in a table whose
  \<open>swatch_id\<close>s are unique, upserting two payloads with the same \<open>swatch_id\<close> one after the
  other leaves exactly one row with that \<open>swatch_id\<close>, whose columns are those of the second
  payload, and leaves the rows of every other \<open>swatch_id\<close> as they were.
\<close>

theorem upsert_twice_leaves_second_payload:
  assumes "distinct (map col_swatch_id tbl)"
    and "upsert_params lib row1 = Inr p1"
    and "upsert_params lib row2 = Inr p2"
    and "dict_get row1 ''swatch_id'' = PStr sid"
    and "dict_get row2 ''swatch_id'' = PStr sid"
  shows "\<exists>tbl1 tbl2.
       upsert_swatch lib False t1 row1 tbl = Inr tbl1
     \<and> upsert_swatch lib False t2 row2 tbl1 = Inr tbl2
     \<and> filter (\<lambda>r. col_swatch_id r = PStr sid) tbl2 =
         [\<lparr> col_swatch_id = PStr sid,
            col_primary_color = dict_get row2 ''primary_color'',
            col_secondary_colors =
              PStr (json_dumps lib False False (dict_get row2 ''secondary_colors'')),
            col_design_style = dict_get row2 ''design_style'',
            col_theme = dict_get row2 ''theme'',
            col_suitable_for = dict_get row2 ''suitable_for'',
            col_description = dict_get row2 ''description'',
            col_image_filename = dict_get row2 ''image_filename'',
            col_updated_at = t2 \<rparr>]
     \<and> (\<forall>k. k \<noteq> PStr sid \<longrightarrow>
            filter (\<lambda>r. col_swatch_id r = k) tbl2 = filter (\<lambda>r. col_swatch_id r = k) tbl)
     \<and> (\<forall>old. conflicts old (values_row p2 t2) \<longrightarrow>
            do_update_set old (values_row p2 t2) t2 = values_row p2 t2)"
proof -
  let ?tbl1 = "execute_upsert p1 t1 tbl"
  let ?tbl2 = "execute_upsert p2 t2 ?tbl1"
  have u1: "upsert_swatch lib False t1 row1 tbl = Inr ?tbl1"
    by (simp add: upsert_swatch_def assms(2) ebind_def)
  have u2: "upsert_swatch lib False t2 row2 ?tbl1 = Inr ?tbl2"
    by (simp add: upsert_swatch_def assms(3) ebind_def)
  have v1: "col_swatch_id (values_row p1 t1) = PStr sid"
    by (simp add: upsert_params_values[OF assms(2)] assms(4))
  have v2: "col_swatch_id (values_row p2 t2) = PStr sid"
    by (simp add: upsert_params_values[OF assms(3)] assms(5))
  have d1: "distinct (map col_swatch_id ?tbl1)"
    using assms(1) by (rule execute_upsert_distinct)
  have "filter (\<lambda>r. col_swatch_id r = col_swatch_id (values_row p2 t2)) ?tbl2 = [values_row p2 t2]"
    using d1 by (rule execute_upsert_key)
  then have one: "filter (\<lambda>r. col_swatch_id r = PStr sid) ?tbl2 =
         [\<lparr> col_swatch_id = PStr sid,
            col_primary_color = dict_get row2 ''primary_color'',
            col_secondary_colors =
              PStr (json_dumps lib False False (dict_get row2 ''secondary_colors'')),
            col_design_style = dict_get row2 ''design_style'',
            col_theme = dict_get row2 ''theme'',
            col_suitable_for = dict_get row2 ''suitable_for'',
            col_description = dict_get row2 ''description'',
            col_image_filename = dict_get row2 ''image_filename'',
            col_updated_at = t2 \<rparr>]"
    unfolding v2 by (simp add: upsert_params_values[OF assms(3)] assms(5))
  have others: "filter (\<lambda>r. col_swatch_id r = k) ?tbl2 = filter (\<lambda>r. col_swatch_id r = k) tbl"
    if "k \<noteq> PStr sid" for k
  proof -
    have "filter (\<lambda>r. col_swatch_id r = k) ?tbl2 = filter (\<lambda>r. col_swatch_id r = k) ?tbl1"
      using that v2 by (intro execute_upsert_others) simp
    also have "\<dots> = filter (\<lambda>r. col_swatch_id r = k) tbl"
      using that v1 by (intro execute_upsert_others) simp
    finally show ?thesis .
  qed
  have whole: "do_update_set old (values_row p2 t2) t2 = values_row p2 t2"
    if "conflicts old (values_row p2 t2)" for old
    using that by (simp add: do_update_set_all values_row_updated_at)
  show ?thesis
    using u1 u2 one others whole by blast
qed

theorem upsert_twice_leaves_second_payload_witness:
  \<open>distinct (map col_swatch_id [other_row])
   \<and> dict_get payload_one ''swatch_id'' = PStr ''SWATCH_0001''
   \<and> dict_get payload_two ''swatch_id'' = PStr ''SWATCH_0001''
   \<and> (\<exists>p1. upsert_params payload_lib payload_one = Inr p1)
   \<and> (\<exists>p2. upsert_params payload_lib payload_two = Inr p2)
   \<and> (\<exists>tbl1 tbl2.
         upsert_swatch payload_lib False 5 payload_one [other_row] = Inr tbl1
       \<and> upsert_swatch payload_lib False 8 payload_two tbl1 = Inr tbl2
       \<and> filter (\<lambda>r. col_swatch_id r = PStr ''SWATCH_0001'') tbl2 =
           [\<lparr> col_swatch_id = PStr ''SWATCH_0001'',
              col_primary_color = PStr ''Red'',
              col_secondary_colors = PStr ''["Grey", "White"]'',
              col_design_style = PStr ''Classic'',
              col_theme = PStr ''Floral'',
              col_suitable_for = PStr ''Hall'',
              col_description = PStr ''A red wallpaper.'',
              col_image_filename = PStr ''two.png'',
              col_updated_at = 8 \<rparr>]
       \<and> filter (\<lambda>r. col_swatch_id r = PStr ''SWATCH_0002'') tbl2 = [other_row])\<close>
proof -
  have d: "distinct (map col_swatch_id [other_row])" by simp
  have s1: "dict_get payload_one ''swatch_id'' = PStr ''SWATCH_0001''"
    by (simp add: payload_one_def dict_get_def)
  have s2: "dict_get payload_two ''swatch_id'' = PStr ''SWATCH_0001''"
    by (simp add: payload_two_def dict_get_def)
  obtain p1 where p1: "upsert_params payload_lib payload_one = Inr p1"
    by (simp add: upsert_params_def payload_one_def dict_item_def ebind_def)
  obtain p2 where p2: "upsert_params payload_lib payload_two = Inr p2"
    by (simp add: upsert_params_def payload_two_def dict_item_def ebind_def)
  have g: \<open>dict_get payload_two ''primary_color'' = PStr ''Red''\<close>
    \<open>json_dumps payload_lib False False (dict_get payload_two ''secondary_colors'') = ''["Grey", "White"]''\<close>
    \<open>dict_get payload_two ''design_style'' = PStr ''Classic''\<close>
    \<open>dict_get payload_two ''theme'' = PStr ''Floral''\<close>
    \<open>dict_get payload_two ''suitable_for'' = PStr ''Hall''\<close>
    \<open>dict_get payload_two ''description'' = PStr ''A red wallpaper.''\<close>
    \<open>dict_get payload_two ''image_filename'' = PStr ''two.png''\<close>
    by (simp_all add: payload_two_def dict_get_def payload_lib_def table_lib_def)
  have o: \<open>filter (\<lambda>r. col_swatch_id r = PStr ''SWATCH_0002'') [other_row] = [other_row]\<close>
    by (simp add: other_row_def)
  have ne: \<open>PStr ''SWATCH_0002'' \<noteq> PStr ''SWATCH_0001''\<close> by simp
  from upsert_twice_leaves_second_payload [OF d p1 p2 s1 s2, of 5 8]
  obtain tbl1 tbl2 where
    a: "upsert_swatch payload_lib False 5 payload_one [other_row] = Inr tbl1"
    and b: "upsert_swatch payload_lib False 8 payload_two tbl1 = Inr tbl2"
    and c: \<open>filter (\<lambda>r. col_swatch_id r = PStr ''SWATCH_0001'') tbl2 =
         [\<lparr> col_swatch_id = PStr ''SWATCH_0001'',
            col_primary_color = dict_get payload_two ''primary_color'',
            col_secondary_colors =
              PStr (json_dumps payload_lib False False (dict_get payload_two ''secondary_colors'')),
            col_design_style = dict_get payload_two ''design_style'',
            col_theme = dict_get payload_two ''theme'',
            col_suitable_for = dict_get payload_two ''suitable_for'',
            col_description = dict_get payload_two ''description'',
            col_image_filename = dict_get payload_two ''image_filename'',
            col_updated_at = 8 \<rparr>]\<close>
    and e: \<open>\<forall>k. k \<noteq> PStr ''SWATCH_0001'' \<longrightarrow>
            filter (\<lambda>r. col_swatch_id r = k) tbl2 = filter (\<lambda>r. col_swatch_id r = k) [other_row]\<close>
    by blast
  from e ne o have f: \<open>filter (\<lambda>r. col_swatch_id r = PStr ''SWATCH_0002'') tbl2 = [other_row]\<close>
    by metis
  show ?thesis
    using d s1 s2 p1 p2 a b c[unfolded g] f by blast
qed

section \<open>The accepted snapshot in reachable states\<close>

lemma snapshot_inv_cong:
  "draft_meta s' = draft_meta s \<Longrightarrow> accepted_meta s' = accepted_meta s \<Longrightarrow>
   snapshot_inv lib cat s \<Longrightarrow> snapshot_inv lib cat s'"
  by (auto simp: snapshot_inv_def split: option.splits)

lemma snapshot_inv_cleared: "accepted_meta s = None \<Longrightarrow> snapshot_inv lib cat s"
  by (simp add: snapshot_inv_def)

lemma extract_handler_cases:
  "fst (extract_handler lib inp s) = s
   \<or> (\<exists>meta. fst (extract_handler lib inp s) =
         s \<lparr> draft_meta := Some (ensure_keys meta), accepted_meta := None,
             meta_dirty := False, description := [], desc_based_on_meta := None \<rparr>)"
  by (auto simp: extract_handler_def split: sum.splits pyval.splits)

lemma extract_handler_inv:
  "snapshot_inv lib cat s \<Longrightarrow> snapshot_inv lib cat (fst (extract_handler lib' inp s))"
  using extract_handler_cases[of lib' inp s]
  by (auto simp: snapshot_inv_cleared)

lemma generate_handler_fields:
  "draft_meta (fst (generate_handler lib inp a s)) = draft_meta s
   \<and> accepted_meta (fst (generate_handler lib inp a s)) = accepted_meta s
   \<and> meta_dirty (fst (generate_handler lib inp a s)) = meta_dirty s"
  by (auto simp: generate_handler_def split: sum.splits)

lemma step2_session:
  "r_session (step2 lib inp a s tbl msgs) =
     (fst (generate_handler lib inp a s))
       \<lparr> description := text_input (description (fst (generate_handler lib inp a s)))
                          (txt_description inp) \<rparr>"
  by (simp add: step2_def Let_def halt_def save_handler_session split: prod.splits)

lemma step2_fields:
  "draft_meta (r_session (step2 lib inp a s tbl msgs)) = draft_meta s
   \<and> accepted_meta (r_session (step2 lib inp a s tbl msgs)) = accepted_meta s"
  by (simp add: step2_session generate_handler_fields)

lemma step1_session:
  assumes "validate_categorical lib draft (set (color_opts cat)) (set (design_opts cat))
             (set (theme_opts cat)) = Inr errs"
    and "final_meta lib cat inp draft = Inr fm"
  shows "r_session (step1 lib cat inp draft s tbl msgs) =
     (case accepted_meta (fst (accept_handler inp fm s)) of
        None \<Rightarrow> fst (accept_handler inp fm s)
      | Some a \<Rightarrow>
          (fst (generate_handler lib inp a (fst (accept_handler inp fm s))))
            \<lparr> description :=
                text_input
                  (description (fst (generate_handler lib inp a (fst (accept_handler inp fm s)))))
                  (txt_description inp) \<rparr>)"
proof -
  obtain s2 m2 where a: "accept_handler inp fm s = (s2, m2)"
    by (cases "accept_handler inp fm s")
  show ?thesis
    by (simp add: step1_def assms a Let_def halt_def step2_session split: option.splits)
qed

lemma step1_inv:
  assumes "snapshot_inv lib cat s" "draft_meta s = Some draft"
  shows "snapshot_inv lib cat (r_session (step1 lib cat inp draft s tbl msgs))"
proof (cases "validate_categorical lib draft (set (color_opts cat)) (set (design_opts cat))
                (set (theme_opts cat))")
  case (Inl e)
  then show ?thesis using assms(1) by (simp add: step1_def halt_def)
next
  case (Inr errs)
  show ?thesis
  proof (cases "final_meta lib cat inp draft")
    case (Inl e)
    then show ?thesis using assms(1) Inr by (simp add: step1_def halt_def Let_def)
  next
    case fm: (Inr fm)
    define s2 where "s2 = fst (accept_handler inp fm s)"
    have d2: "draft_meta s2 = Some draft"
      using assms(2) by (simp add: s2_def accept_handler_def)
    have inv2: "snapshot_inv lib cat s2"
    proof (cases "btn_accept inp")
      case True
      then have "accepted_meta s2 = Some fm" by (simp add: s2_def accept_handler_def)
      with d2 Inr fm show ?thesis by (auto simp: snapshot_inv_def)
    next
      case False
      then have "s2 = s" by (simp add: s2_def accept_handler_def)
      with assms(1) show ?thesis by simp
    qed
    show ?thesis
    proof (cases "accepted_meta s2")
      case None
      then have "r_session (step1 lib cat inp draft s tbl msgs) = s2"
        unfolding step1_session[OF Inr fm] s2_def by simp
      with inv2 show ?thesis by simp
    next
      case (Some a)
      then have "r_session (step1 lib cat inp draft s tbl msgs)
          = r_session (step2 lib inp a s2 tbl [])"
        unfolding step1_session[OF Inr fm] s2_def by (simp add: step2_session)
      then show ?thesis
        using inv2 step2_fields[of lib inp a s2 tbl "[]"] by (simp add: snapshot_inv_cong)
    qed
  qed
qed

lemma run_inv:
  assumes "snapshot_inv lib cat s"
  shows "snapshot_inv lib cat (r_session (run lib cat inp s tbl))"
proof -
  obtain s1 m0 where e: "extract_handler lib inp s = (s1, m0)"
    by (cases "extract_handler lib inp s")
  have i1: "snapshot_inv lib cat s1"
    using extract_handler_inv[OF assms, of lib inp] e by simp
  show ?thesis
  proof (cases "draft_meta s1")
    case None
    then show ?thesis using i1 e by (simp add: run_def halt_def)
  next
    case (Some draft)
    then show ?thesis
      using step1_inv[OF i1 Some] e by (simp add: run_def)
  qed
qed

lemma mark_dirty_inv: "snapshot_inv lib cat s \<Longrightarrow> snapshot_inv lib cat (mark_dirty s)"
  by (auto simp: mark_dirty_def snapshot_inv_cleared)

lemma reachable_inv: "reachable lib cat s \<Longrightarrow> snapshot_inv lib cat s"
proof (induction rule: reachable.induct)
  case reach_init
  show ?case by (simp add: snapshot_inv_def init_state_def)
next
  case (reach_run s inp tbl)
  then show ?case by (simp add: run_inv)
next
  case (reach_edit s inp tbl)
  then show ?case by (simp add: edit_run_def run_inv mark_dirty_inv)
qed

lemma index_of_member:
  "v \<in> set xs \<Longrightarrow> index_of v xs < length xs \<and> xs ! index_of v xs = v"
  by (induction xs) auto

lemma safe_index_bound: "options \<noteq> [] \<Longrightarrow> safe_index options v < length options"
  by (cases v) (auto simp: safe_index_def index_of_member)

lemma safe_index_member:
  "s \<in> set options \<Longrightarrow> options ! safe_index options (PStr s) = s"
  by (simp add: safe_index_def index_of_member)

lemma safe_index_fallback: "\<not> is_member v (set options) \<Longrightarrow> safe_index options v = 0"
  by (cases v) (auto simp: safe_index_def is_member_def)

lemma selectbox_member:
  "options \<noteq> [] \<Longrightarrow> is_member (selectbox options (safe_index options v) sel) (set options)"
  using safe_index_bound[of options v]
  by (auto simp: selectbox_def is_member_def split: option.splits)

lemma good_values_Inr:
  "good_values xs S = Inr ys \<Longrightarrow> ys = filter (\<lambda>x. is_member x S) xs"
proof (induction xs arbitrary: ys)
  case Nil
  then show ?case by simp
next
  case (Cons x xs)
  from ebind_Inr[OF Cons.prems[unfolded good_values.simps]] obtain b where
    b: "in_set x S = Inr b"
    and 1: "ebind (good_values xs S) (\<lambda>rest. Inr (if b then x # rest else rest)) = Inr ys"
    by blast
  from ebind_Inr[OF 1] obtain rest where r: "good_values xs S = Inr rest"
    and e: "ys = (if b then x # rest else rest)"
    by auto
  from r have "rest = filter (\<lambda>x. is_member x S) xs" by (rule Cons.IH)
  with e in_set_Inr[OF b] show ?case by simp
qed

lemma secondary_default_members:
  "secondary_default cat draft = Inr dflt \<Longrightarrow>
   list_all (\<lambda>x. is_member x (set (color_opts cat))) dflt"
proof -
  assume a: "secondary_default cat draft = Inr dflt"
  from ebind_Inr[OF a[unfolded secondary_default_def]] obtain xs where
    "good_values xs (set (color_opts cat)) = Inr dflt"
    by blast
  then have "dflt = filter (\<lambda>x. is_member x (set (color_opts cat))) xs"
    by (rule good_values_Inr)
  then show ?thesis by (simp add: list_all_iff)
qed

lemma multiselect_members:
  "list_all (\<lambda>x. is_member x (set options)) dflt \<Longrightarrow>
   list_all (\<lambda>x. is_member x (set options)) (multiselect options dflt sel)"
  by (auto simp: multiselect_def is_member_def list_all_iff split: option.splits)

lemma final_meta_shape:
  assumes "final_meta lib cat inp draft = Inr fm"
  shows "\<exists>dflt. secondary_default cat draft = Inr dflt
     \<and> fm =
        [(''primary_color'',
          selectbox (color_opts cat)
            (safe_index (color_opts cat) (dict_get draft ''primary_color'')) (sel_primary inp)),
         (''secondary_colors'', PList (multiselect (color_opts cat) dflt (sel_secondary inp))),
         (''design_style'',
          selectbox (design_opts cat)
            (safe_index (design_opts cat) (dict_get draft ''design_style''))
            (sel_design_style inp)),
         (''theme'',
          selectbox (theme_opts cat)
            (safe_index (theme_opts cat) (dict_get draft ''theme'')) (sel_theme inp)),
         (''suitable_for'',
          PStr (text_input (py_str lib (py_or (dict_get draft ''suitable_for'') (PStr [])))
                  (txt_suitable_for inp)))]"
  using ebind_Inr[OF assms[unfolded final_meta_def Let_def]] by auto

lemma final_meta_valid:
  assumes "final_meta lib cat inp draft = Inr fm"
    and "color_opts cat \<noteq> []" "design_opts cat \<noteq> []" "theme_opts cat \<noteq> []"
  shows "valid_record fm (set (color_opts cat)) (set (design_opts cat)) (set (theme_opts cat))"
proof -
  from final_meta_shape[OF assms(1)] obtain dflt where
    d: "secondary_default cat draft = Inr dflt"
    and fm: "fm =
        [(''primary_color'',
          selectbox (color_opts cat)
            (safe_index (color_opts cat) (dict_get draft ''primary_color'')) (sel_primary inp)),
         (''secondary_colors'', PList (multiselect (color_opts cat) dflt (sel_secondary inp))),
         (''design_style'',
          selectbox (design_opts cat)
            (safe_index (design_opts cat) (dict_get draft ''design_style''))
            (sel_design_style inp)),
         (''theme'',
          selectbox (theme_opts cat)
            (safe_index (theme_opts cat) (dict_get draft ''theme'')) (sel_theme inp)),
         (''suitable_for'',
          PStr (text_input (py_str lib (py_or (dict_get draft ''suitable_for'') (PStr [])))
                  (txt_suitable_for inp)))]"
    by blast
  have pc: "dict_get fm ''primary_color'' =
          selectbox (color_opts cat)
            (safe_index (color_opts cat) (dict_get draft ''primary_color'')) (sel_primary inp)"
    and sc: "dict_get fm ''secondary_colors'' =
          PList (multiselect (color_opts cat) dflt (sel_secondary inp))"
    and ds: "dict_get fm ''design_style'' =
          selectbox (design_opts cat)
            (safe_index (design_opts cat) (dict_get draft ''design_style''))
            (sel_design_style inp)"
    and th: "dict_get fm ''theme'' =
          selectbox (theme_opts cat)
            (safe_index (theme_opts cat) (dict_get draft ''theme'')) (sel_theme inp)"
    unfolding fm by (simp_all add: dict_get_def)
  show ?thesis
    unfolding valid_record_def pc sc ds th
    using selectbox_member[OF assms(2)] selectbox_member[OF assms(3)]
      selectbox_member[OF assms(4)]
      multiselect_members[OF secondary_default_members[OF d]]
    by simp
qed

lemma final_meta_total:
  "final_meta lib cat inp0 draft = Inr a \<Longrightarrow> \<exists>fm. final_meta lib cat inp draft = Inr fm"
proof -
  assume "final_meta lib cat inp0 draft = Inr a"
  from final_meta_shape[OF this] obtain dflt where "secondary_default cat draft = Inr dflt"
    by blast
  then show ?thesis by (simp add: final_meta_def ebind_def Let_def)
qed

lemma run_no_extract:
  "\<not> btn_extract inp \<Longrightarrow> draft_meta s = Some draft \<Longrightarrow>
   run lib cat inp s tbl = step1 lib cat inp draft s tbl []"
  by (simp add: run_def extract_handler_def)

lemma step2_save:
  "\<not> btn_generate inp \<Longrightarrow> btn_save inp \<Longrightarrow>
   step2 lib inp a s tbl msgs =
     (save_handler lib inp a
        (s \<lparr> description := text_input (description s) (txt_description inp) \<rparr>) tbl)
       \<lparr> r_messages := msgs @ r_messages
            (save_handler lib inp a
               (s \<lparr> description := text_input (description s) (txt_description inp) \<rparr>) tbl) \<rparr>"
  by (simp add: step2_def generate_handler_def Let_def)

lemma step1_to_save:
  assumes "validate_categorical lib draft (set (color_opts cat)) (set (design_opts cat))
             (set (theme_opts cat)) = Inr errs"
    and "final_meta lib cat inp draft = Inr fm"
    and "\<not> btn_accept inp" "\<not> btn_generate inp" "btn_save inp"
    and "accepted_meta s = Some a"
    and "sh = save_handler lib inp a
        (s \<lparr> description := text_input (description s) (txt_description inp) \<rparr>) tbl"
  shows "r_upserts (step1 lib cat inp draft s tbl msgs) = r_upserts sh
     \<and> r_table (step1 lib cat inp draft s tbl msgs) = r_table sh
     \<and> r_outcome (step1 lib cat inp draft s tbl msgs) = r_outcome sh
     \<and> r_session (step1 lib cat inp draft s tbl msgs) = r_session sh
     \<and> suffix (r_messages sh) (r_messages (step1 lib cat inp draft s tbl msgs))"
proof -
  have "step1 lib cat inp draft s tbl msgs =
      step2 lib inp a s tbl
        (msgs
         @ (if errs \<noteq> []
            then [StWarning (''LLM output needs review (you can correct using dropdowns):''
                             @ concat (map (\<lambda>e. [CHR 0x0A] @ ''- '' @ e) errs))]
            else [])
         @ []
         @ (if meta_dirty s
            then [StWarning ''Metadata changed after acceptance. Please Accept again to generate description.'']
            else []))"
    using assms(3) by (simp only: step1_def assms(1,2,6) Let_def accept_handler_def
        sum.case if_False prod.case option.case)
  then show ?thesis
    unfolding step2_save[OF assms(4,5)] assms(7)
    by (simp add: suffix_def)
qed

lemma run_to_save:
  assumes "snapshot_inv lib cat s" "accepted_meta s = Some a"
    and "\<not> btn_extract inp" "\<not> btn_accept inp" "\<not> btn_generate inp" "btn_save inp"
    and "sh = save_handler lib inp a
        (s \<lparr> description := text_input (description s) (txt_description inp) \<rparr>) tbl"
  shows "r_upserts (run lib cat inp s tbl) = r_upserts sh
     \<and> r_table (run lib cat inp s tbl) = r_table sh
     \<and> r_outcome (run lib cat inp s tbl) = r_outcome sh
     \<and> r_session (run lib cat inp s tbl) = r_session sh
     \<and> suffix (r_messages sh) (r_messages (run lib cat inp s tbl))"
proof -
  from assms(1,2) obtain draft errs inp0 where
    d: "draft_meta s = Some draft"
    and v: "validate_categorical lib draft (set (color_opts cat)) (set (design_opts cat))
             (set (theme_opts cat)) = Inr errs"
    and f0: "final_meta lib cat inp0 draft = Inr a"
    by (auto simp: snapshot_inv_def)
  from final_meta_total[OF f0] obtain fm where f: "final_meta lib cat inp draft = Inr fm"
    by blast
  show ?thesis
    unfolding run_no_extract[OF assms(3) d]
    using v f assms(4,5,6,2,7) by (rule step1_to_save)
qed

lemma snapshot_keys:
  assumes "snapshot_inv lib cat s" "accepted_meta s = Some a"
  shows "\<exists>pc sc ds th sf.
     a = [(''primary_color'', pc), (''secondary_colors'', PList sc), (''design_style'', ds),
          (''theme'', th), (''suitable_for'', PStr sf)]"
proof -
  from assms obtain draft inp0 where "final_meta lib cat inp0 draft = Inr a"
    by (auto simp: snapshot_inv_def)
  from final_meta_shape[OF this] show ?thesis by blast
qed

lemma save_row_of_snapshot:
  assumes "a = [(''primary_color'', pc), (''secondary_colors'', PList sc), (''design_style'', ds),
          (''theme'', th), (''suitable_for'', PStr sf)]"
  shows "save_row inp a d =
     Inr [(''swatch_id'', PStr (swatch_id inp)),
          (''primary_color'', dict_get a ''primary_color''),
          (''secondary_colors'', dict_get a ''secondary_colors''),
          (''design_style'', dict_get a ''design_style''),
          (''theme'', dict_get a ''theme''),
          (''suitable_for'', dict_get a ''suitable_for''),
          (''description'', PStr (py_strip d)),
          (''image_filename'', PStr (filename inp))]"
  unfolding assms
  by (simp add: save_row_def dict_item_def ebind_def dict_get_def dict_get_default_def)

lemma upsert_params_of_row:
  "upsert_params lib
     [(''swatch_id'', sid), (''primary_color'', pc), (''secondary_colors'', sc),
      (''design_style'', ds), (''theme'', th), (''suitable_for'', sf),
      (''description'', de), (''image_filename'', fn)]
   = Inr [(''swatch_id'', sid), (''primary_color'', pc),
          (''secondary_colors'', PStr (json_dumps lib False False sc)),
          (''design_style'', ds), (''theme'', th), (''suitable_for'', sf),
          (''description'', de), (''image_filename'', fn)]"
  by (simp add: upsert_params_def dict_item_def ebind_def dict_get_def)

lemma save_handler_stale:
  assumes "py_strip (description s) \<noteq> []" "desc_based_on_meta s = Some b"
    "json_dumps lib True True (PDict a) \<noteq> b"
  shows "save_handler lib inp a s tbl =
     \<lparr> r_session = s, r_table = tbl, r_outcome = Stopped,
       r_messages =
         [StWarning ''Metadata changed since last description generation. Please regenerate description.''],
       r_upserts = [] \<rparr>"
  using assms by (auto simp: save_handler_def Let_def)

lemma save_handler_fresh:
  assumes "py_strip (description s) \<noteq> []"
    and "desc_based_on_meta s = None
         \<or> desc_based_on_meta s = Some (json_dumps lib True True (PDict a))"
    and "a = [(''primary_color'', pc), (''secondary_colors'', PList sc), (''design_style'', ds),
          (''theme'', th), (''suitable_for'', PStr sf)]"
    and "row = [(''swatch_id'', PStr (swatch_id inp)),
          (''primary_color'', dict_get a ''primary_color''),
          (''secondary_colors'', dict_get a ''secondary_colors''),
          (''design_style'', dict_get a ''design_style''),
          (''theme'', dict_get a ''theme''),
          (''suitable_for'', dict_get a ''suitable_for''),
          (''description'', PStr (py_strip (description s))),
          (''image_filename'', PStr (filename inp))]"
    and "params = [(''swatch_id'', PStr (swatch_id inp)),
          (''primary_color'', dict_get a ''primary_color''),
          (''secondary_colors'',
           PStr (json_dumps lib False False (dict_get a ''secondary_colors''))),
          (''design_style'', dict_get a ''design_style''),
          (''theme'', dict_get a ''theme''),
          (''suitable_for'', dict_get a ''suitable_for''),
          (''description'', PStr (py_strip (description s))),
          (''image_filename'', PStr (filename inp))]"
  shows "save_handler lib inp a s tbl =
     \<lparr> r_session = s,
       r_table = (if db_fails inp then tbl else execute_upsert params (now inp) tbl),
       r_outcome = Finished,
       r_messages =
         (if db_fails inp then [StErrorExn ''Save failed: '' DbError]
          else [StSuccess ''Saved (If swatch_id existed, it was overwritten.)'']),
       r_upserts = [row] \<rparr>"
proof -
  have r: "save_row inp a (description s) = Inr row"
    unfolding assms(4) using assms(3) by (rule save_row_of_snapshot)
  have p: "upsert_params lib row = Inr params"
    unfolding assms(4,5) by (rule upsert_params_of_row)
  have u: "upsert_swatch lib (db_fails inp) (now inp) row tbl =
           (if db_fails inp then Inl DbError else Inr (execute_upsert params (now inp) tbl))"
    by (simp add: upsert_swatch_def p ebind_def)
  have g: "\<not> (desc_based_on_meta s \<noteq> None
             \<and> desc_based_on_meta s \<noteq> Some (json_dumps lib True True (PDict a)))"
    using assms(2) by auto
  show ?thesis
    unfolding save_handler_def Let_def using assms(1) g
    by (simp add: r u)
qed

lemma text_input_again:
  "text_input (text_input v typed) typed = text_input v typed"
  by (cases typed) (simp_all add: text_input_def)

lemma last_dropWhile: "dropWhile P xs \<noteq> [] \<Longrightarrow> last (dropWhile P xs) = last xs"
  by (induction xs) (auto split: if_splits)

lemma py_strip_ends:
  assumes "py_strip s \<noteq> []"
  shows "\<not> py_isspace (hd (py_strip s)) \<and> \<not> py_isspace (last (py_strip s))"
proof -
  define u where "u = dropWhile py_isspace s"
  define v where "v = dropWhile py_isspace (rev u)"
  have s: "py_strip s = rev v" by (simp add: py_strip_def u_def v_def)
  with assms have v: "v \<noteq> []" by simp
  then have u: "u \<noteq> []" by (auto simp: v_def)
  have "\<not> py_isspace (hd v)" using v unfolding v_def by (rule hd_dropWhile)
  then have l: "\<not> py_isspace (last (rev v))" using v by (simp add: last_rev)
  have "last v = last (rev u)" using v unfolding v_def by (rule last_dropWhile)
  then have "hd (rev v) = hd u" using v u by (simp add: hd_rev last_rev)
  moreover have "\<not> py_isspace (hd u)" using u unfolding u_def by (rule hd_dropWhile)
  ultimately show ?thesis using l s by simp
qed

lemma py_rfind_ge: "- 1 \<le> py_rfind s c"
proof (cases "c \<in> set s")
  case True
  then obtain pre post where "s = pre @ c # post" "py_rfind s c = int (length pre)"
    using py_rfind_split by blast
  then show ?thesis by simp
next
  case False
  then have "py_rfind s c = - 1" by (simp add: py_rfind_neg)
  then show ?thesis by simp
qed

lemma py_rfind_after:
  assumes "c \<in> set post"
  shows "py_rfind (pre @ x # post) c > int (length pre)"
proof -
  from assms obtain p2 q2 where q: "post = p2 @ c # q2" "c \<notin> set q2"
    by (meson split_list_last)
  have "py_rfind ((pre @ x # p2) @ c # q2) c = int (length (pre @ x # p2))"
    using q(2) by (rule py_rfind_last)
  then show ?thesis using q(1) by simp
qed

lemma splitext_root_ext:
  "\<exists>ext. p = splitext_root p @ ext
     \<and> (ext = [] \<or> (hd ext = CHR ''.'' \<and> CHR ''.'' \<notin> set (tl ext) \<and> CHR ''/'' \<notin> set (tl ext)))"
proof (cases "py_rfind p CHR ''.'' > py_rfind p CHR ''/''
              \<and> list_ex (\<lambda>c. c \<noteq> CHR ''.'')
                   (py_slice p (py_rfind p CHR ''/'' + 1) (py_rfind p CHR ''.''))")
  case False
  then have "splitext_root p = p" by (auto simp: splitext_root_def Let_def)
  then show ?thesis by simp
next
  case True
  then have gt: "py_rfind p CHR ''.'' > py_rfind p CHR ''/''" by simp
  have "- 1 \<le> py_rfind p CHR ''/''" by (rule py_rfind_ge)
  with gt have "py_rfind p CHR ''.'' \<noteq> - 1" by simp
  then have "CHR ''.'' \<in> set p" by (simp add: py_rfind_neg)
  then obtain pre post where sp: "p = pre @ CHR ''.'' # post" "CHR ''.'' \<notin> set post"
    "py_rfind p CHR ''.'' = int (length pre)"
    using py_rfind_split by blast
  have "py_slice p 0 (py_rfind p CHR ''.'') = pre"
    unfolding sp(3) by (simp add: py_slice_nonneg sp(1))
  then have root: "splitext_root p = pre"
    using True by (simp add: splitext_root_def Let_def)
  have "CHR ''/'' \<notin> set post"
  proof
    assume "CHR ''/'' \<in> set post"
    then have "py_rfind (pre @ CHR ''.'' # post) CHR ''/'' > int (length pre)"
      by (rule py_rfind_after)
    with gt sp show False by simp
  qed
  with sp root show ?thesis by simp
qed

section \<open>Saving\<close>

text \<open>
  C1: in every reachable state in which \<open>accepted_meta\<close> is set, the description is not
  empty after stripping and \<open>desc_based_on_meta\<close> is set, a run in which only Save is
  pressed is refused when the fingerprint of the accepted snapshot (its JSON serialization
  with sorted keys) differs from \<open>desc_based_on_meta\<close>: the run stops with the warning to
  regenerate the description, \<^verbatim>\<open>upsert_swatch\<close> is not called and the table is as it was.
  When the two are equal, \<^verbatim>\<open>upsert_swatch\<close> is called once, the table is the result of
  the upsert unless the database fails, and the session keeps its accepted snapshot and
  its basis, so that saving again calls \<^verbatim>\<open>upsert_swatch\<close> with the same row.
\<close>

theorem save_gate:
  assumes "reachable lib cat s" "accepted_meta s = Some a"
    and "\<not> btn_extract inp" "\<not> btn_accept inp" "\<not> btn_generate inp" "btn_save inp"
    and "py_strip (text_input (description s) (txt_description inp)) \<noteq> []"
    and "desc_based_on_meta s = Some b"
  shows "(json_dumps lib True True (PDict a) \<noteq> b \<longrightarrow>
            r_upserts (run lib cat inp s tbl) = []
          \<and> r_table (run lib cat inp s tbl) = tbl
          \<and> r_outcome (run lib cat inp s tbl) = Stopped
          \<and> suffix [StWarning ''Metadata changed since last description generation. Please regenerate description.'']
                (r_messages (run lib cat inp s tbl)))
       \<and> (json_dumps lib True True (PDict a) = b \<longrightarrow>
            (\<exists>row params.
                r_upserts (run lib cat inp s tbl) = [row]
              \<and> upsert_params lib row = Inr params
              \<and> r_table (run lib cat inp s tbl)
                  = (if db_fails inp then tbl else execute_upsert params (now inp) tbl)
              \<and> r_upserts (run lib cat inp (r_session (run lib cat inp s tbl))
                              (r_table (run lib cat inp s tbl))) = [row])
          \<and> r_outcome (run lib cat inp s tbl) = Finished)
       \<and> r_session (run lib cat inp s tbl)
           = s \<lparr> description := text_input (description s) (txt_description inp) \<rparr>"
proof -
  define s' where "s' = s \<lparr> description := text_input (description s) (txt_description inp) \<rparr>"
  have inv: "snapshot_inv lib cat s" using assms(1) by (rule reachable_inv)
  have inv': "snapshot_inv lib cat s'"
    using _ _ inv by (rule snapshot_inv_cong) (simp_all add: s'_def)
  have acc': "accepted_meta s' = Some a" using assms(2) by (simp add: s'_def)
  have d': "py_strip (description s') \<noteq> []" using assms(7) by (simp add: s'_def)
  have b': "desc_based_on_meta s' = Some b" using assms(8) by (simp add: s'_def)
  have again: "s' \<lparr> description := text_input (description s') (txt_description inp) \<rparr> = s'"
    by (simp add: s'_def text_input_again)
  note red = run_to_save[OF inv assms(2,3,4,5,6) refl, of tbl, folded s'_def]
  have sess: "r_session (run lib cat inp s tbl) = s'"
    using red by (simp add: save_handler_session)
  have stale: "r_upserts (run lib cat inp s tbl) = []
          \<and> r_table (run lib cat inp s tbl) = tbl
          \<and> r_outcome (run lib cat inp s tbl) = Stopped
          \<and> suffix [StWarning ''Metadata changed since last description generation. Please regenerate description.'']
                (r_messages (run lib cat inp s tbl))"
    if "json_dumps lib True True (PDict a) \<noteq> b"
    using red unfolding save_handler_stale[OF d' b' that] by simp
  have fresh: "(\<exists>row params.
                r_upserts (run lib cat inp s tbl) = [row]
              \<and> upsert_params lib row = Inr params
              \<and> r_table (run lib cat inp s tbl)
                  = (if db_fails inp then tbl else execute_upsert params (now inp) tbl)
              \<and> r_upserts (run lib cat inp (r_session (run lib cat inp s tbl))
                              (r_table (run lib cat inp s tbl))) = [row])
          \<and> r_outcome (run lib cat inp s tbl) = Finished"
    if eq: "json_dumps lib True True (PDict a) = b"
  proof -
    from snapshot_keys[OF inv assms(2)] obtain pc sc ds th sf where
      k: "a = [(''primary_color'', pc), (''secondary_colors'', PList sc), (''design_style'', ds),
          (''theme'', th), (''suitable_for'', PStr sf)]"
      by blast
    have bb: "desc_based_on_meta s' = None
         \<or> desc_based_on_meta s' = Some (json_dumps lib True True (PDict a))"
      using b' eq by simp
    define row where "row = [(''swatch_id'', PStr (swatch_id inp)),
          (''primary_color'', dict_get a ''primary_color''),
          (''secondary_colors'', dict_get a ''secondary_colors''),
          (''design_style'', dict_get a ''design_style''),
          (''theme'', dict_get a ''theme''),
          (''suitable_for'', dict_get a ''suitable_for''),
          (''description'', PStr (py_strip (description s'))),
          (''image_filename'', PStr (filename inp))]"
    define params where "params = [(''swatch_id'', PStr (swatch_id inp)),
          (''primary_color'', dict_get a ''primary_color''),
          (''secondary_colors'',
           PStr (json_dumps lib False False (dict_get a ''secondary_colors''))),
          (''design_style'', dict_get a ''design_style''),
          (''theme'', dict_get a ''theme''),
          (''suitable_for'', dict_get a ''suitable_for''),
          (''description'', PStr (py_strip (description s'))),
          (''image_filename'', PStr (filename inp))]"
    note sh = save_handler_fresh[OF d' bb k row_def params_def]
    have p: "upsert_params lib row = Inr params"
      unfolding row_def params_def by (rule upsert_params_of_row)
    have 1: "r_upserts (run lib cat inp s tbl) = [row]"
      and 2: "r_table (run lib cat inp s tbl)
                  = (if db_fails inp then tbl else execute_upsert params (now inp) tbl)"
      and 3: "r_outcome (run lib cat inp s tbl) = Finished"
      using red unfolding sh by simp_all
    note red2 = run_to_save[OF inv' acc' assms(3,4,5,6) refl,
        of "r_table (run lib cat inp s tbl)", unfolded again]
    have 4: "r_upserts (run lib cat inp s' (r_table (run lib cat inp s tbl))) = [row]"
      using red2 unfolding sh by simp
    show ?thesis using 1 2 3 4 p sess by blast
  qed
  show ?thesis
    using stale fresh sess unfolding s'_def by blast
qed

section \<open>A session walked through\<close>

lemma walk_validate:
  "validate_categorical walk_lib invalid_meta
       (set (color_opts example_catalog)) (set (design_opts example_catalog))
       (set (theme_opts example_catalog))
     = Inr [''primary_color not in options: Teal'',
            ''secondary_colors invalid values: ['' @ [CHR 0x27] @ ''Neon'' @ [CHR 0x27] @ '', '' @ [CHR 0x27] @ ''Mauve'' @ [CHR 0x27] @ '']'',
            ''theme not in options: Space'']"
  by (simp add: validate_categorical_def invalid_meta_def walk_lib_def table_lib_def
      example_catalog_def dict_get_def in_set_def ebind_def secondary_errs_def py_str_def)

lemma walk_secondary_default:
  "secondary_default example_catalog invalid_meta = Inr [PStr ''White'']"
  by (simp add: secondary_default_def invalid_meta_def dict_get_def py_or_def py_iter_def
      in_set_def ebind_def example_catalog_def)

lemma walk_final_meta:
  assumes "sel_secondary inp = None" "sel_design_style inp = None" "sel_theme inp = None"
    "txt_suitable_for inp = None"
  shows "final_meta walk_lib example_catalog inp invalid_meta =
     Inr [(''primary_color'',
           selectbox (color_opts example_catalog) 0 (sel_primary inp)),
          (''secondary_colors'', PList [PStr ''White'']),
          (''design_style'', PStr ''Modern''), (''theme'', PStr ''Floral''),
          (''suitable_for'', PStr ''Bedroom'')]"
proof -
  have i: "safe_index (color_opts example_catalog) (dict_get invalid_meta ''primary_color'') = 0"
    "safe_index (design_opts example_catalog) (dict_get invalid_meta ''design_style'') = Suc 0"
    "safe_index (theme_opts example_catalog) (dict_get invalid_meta ''theme'') = 0"
    by (simp_all add: safe_index_def invalid_meta_def dict_get_def example_catalog_def)
  have sf: "py_str walk_lib (py_or (dict_get invalid_meta ''suitable_for'') (PStr [])) = ''Bedroom''"
    by (simp add: invalid_meta_def dict_get_def py_or_def py_str_def)
  have sb: "selectbox (design_opts example_catalog) (Suc 0) None = PStr ''Modern''"
    "selectbox (theme_opts example_catalog) 0 None = PStr ''Floral''"
    by (simp_all add: selectbox_def example_catalog_def)
  show ?thesis
    unfolding final_meta_def Let_def walk_secondary_default i sf assms
    by (simp add: ebind_def multiselect_def text_input_def sb)
qed

lemma walk_final_meta_a:
  assumes "sel_primary inp = None" "sel_secondary inp = None" "sel_design_style inp = None"
    "sel_theme inp = None" "txt_suitable_for inp = None"
  shows "final_meta walk_lib example_catalog inp invalid_meta = Inr accepted_a"
  unfolding walk_final_meta[OF assms(2,3,4,5)] assms(1)
  by (simp add: selectbox_def example_catalog_def accepted_a_def)

lemma walk_final_meta_b:
  assumes "sel_primary inp = Some 2" "sel_secondary inp = None" "sel_design_style inp = None"
    "sel_theme inp = None" "txt_suitable_for inp = None"
  shows "final_meta walk_lib example_catalog inp invalid_meta = Inr accepted_b"
  unfolding walk_final_meta[OF assms(2,3,4,5)] assms(1)
  by (simp add: selectbox_def example_catalog_def accepted_b_def)

lemma run_after_extract:
  assumes "btn_extract inp" "extract_metadata lib (extract_resp inp) = Inr (PDict meta)"
  shows "run lib cat inp s tbl =
     step1 lib cat inp (ensure_keys meta)
       (s \<lparr> draft_meta := Some (ensure_keys meta), accepted_meta := None,
            meta_dirty := False, description := [], desc_based_on_meta := None \<rparr>) tbl []"
  using assms by (simp add: run_def extract_handler_def)

lemma walk_extract:
  "extract_metadata walk_lib (extract_resp (extract_inputs walk_text)) = Inr (PDict invalid_meta)"
proof -
  have s: "py_strip walk_text = walk_text"
    by (simp add: py_strip_def py_isspace_def walk_text_def)
  show ?thesis
    by (simp add: extract_metadata_def extract_inputs_def output_text_or_empty_def s
        safe_json_load_def walk_lib_def table_lib_def)
qed

lemma walk_run1:
  "r_session (run walk_lib example_catalog (extract_inputs walk_text) init_state []) = walk_s1"
proof -
  have b: "btn_extract (extract_inputs walk_text)" by (simp add: extract_inputs_def)
  have k: "ensure_keys invalid_meta = invalid_meta"
    by (simp add: ensure_keys_def setdefault_def invalid_meta_def)
  have f: "final_meta walk_lib example_catalog (extract_inputs walk_text) invalid_meta
           = Inr accepted_a"
    by (rule walk_final_meta_a) (simp_all add: extract_inputs_def idle_inputs_def)
  show ?thesis
    unfolding run_after_extract[OF b walk_extract] k step1_session[OF walk_validate f]
    by (simp add: accept_handler_def extract_inputs_def idle_inputs_def init_state_def
        walk_s1_def)
qed

lemma walk_run2:
  "r_session (run walk_lib example_catalog accept_inputs walk_s1 []) = walk_s2"
proof -
  have b: "\<not> btn_extract accept_inputs" by (simp add: accept_inputs_def idle_inputs_def)
  have d: "draft_meta walk_s1 = Some invalid_meta" by (simp add: walk_s1_def)
  have f: "final_meta walk_lib example_catalog accept_inputs invalid_meta = Inr accepted_a"
    by (rule walk_final_meta_a) (simp_all add: accept_inputs_def idle_inputs_def)
  show ?thesis
    unfolding run_no_extract[OF b d] step1_session[OF walk_validate f]
    by (simp add: accept_handler_def generate_handler_def text_input_def accept_inputs_def
        idle_inputs_def walk_s1_def walk_s2_def)
qed

lemma walk_run3:
  "r_session (run walk_lib example_catalog generate_inputs walk_s2 []) = walk_s3"
proof -
  have b: "\<not> btn_extract generate_inputs" by (simp add: generate_inputs_def idle_inputs_def)
  have d: "draft_meta walk_s2 = Some invalid_meta" by (simp add: walk_s2_def)
  have f: "final_meta walk_lib example_catalog generate_inputs invalid_meta = Inr accepted_a"
    by (rule walk_final_meta_a) (simp_all add: generate_inputs_def idle_inputs_def)
  have g: "generate_description (generate_resp generate_inputs)
           = Inr ''A blue wallpaper with floral motifs.''"
    by (simp add: generate_description_def generate_inputs_def output_text_or_empty_def
        py_strip_def py_isspace_def)
  have j: "json_dumps walk_lib True True (PDict accepted_a) = sig_a"
    by (simp add: walk_lib_def table_lib_def)
  have h: "generate_handler walk_lib generate_inputs accepted_a walk_s2 =
           (walk_s2 \<lparr> description := ''A blue wallpaper with floral motifs.'',
                      desc_based_on_meta := Some sig_a \<rparr>, [])"
    unfolding generate_handler_def g j by (simp add: generate_inputs_def)
  have h': "fst (generate_handler walk_lib generate_inputs accepted_a walk_s2) = walk_s3"
    unfolding h by (simp add: walk_s2_def walk_s3_def)
  have a: "accept_handler generate_inputs accepted_a walk_s2 = (walk_s2, [])"
    by (simp add: accept_handler_def generate_inputs_def idle_inputs_def)
  have t: "txt_description generate_inputs = None"
    by (simp add: generate_inputs_def idle_inputs_def)
  have acc: "accepted_meta walk_s2 = Some accepted_a" by (simp add: walk_s2_def)
  show ?thesis
    unfolding run_no_extract[OF b d] step1_session[OF walk_validate f] a
    by (simp add: acc h' t text_input_def walk_s3_def)
qed

lemma walk_run4:
  "r_session (run walk_lib example_catalog (accept_inputs \<lparr> sel_primary := Some 2 \<rparr>) walk_s3 [])
   = walk_s4"
proof -
  have b: "\<not> btn_extract (accept_inputs \<lparr> sel_primary := Some 2 \<rparr>)"
    by (simp add: accept_inputs_def idle_inputs_def)
  have d: "draft_meta walk_s3 = Some invalid_meta" by (simp add: walk_s3_def)
  have f: "final_meta walk_lib example_catalog (accept_inputs \<lparr> sel_primary := Some 2 \<rparr>)
             invalid_meta = Inr accepted_b"
    by (rule walk_final_meta_b) (simp_all add: accept_inputs_def idle_inputs_def)
  show ?thesis
    unfolding run_no_extract[OF b d] step1_session[OF walk_validate f]
    by (simp add: accept_handler_def generate_handler_def text_input_def accept_inputs_def
        idle_inputs_def walk_s3_def walk_s4_def)
qed

lemma walk_reachable:
  "reachable walk_lib example_catalog walk_s1"
  "reachable walk_lib example_catalog walk_s2"
  "reachable walk_lib example_catalog walk_s3"
  "reachable walk_lib example_catalog walk_s4"
proof -
  show 1: "reachable walk_lib example_catalog walk_s1"
    using reach_run[OF reach_init, of walk_lib example_catalog "extract_inputs walk_text" "[]"]
    by (simp only: walk_run1)
  show 2: "reachable walk_lib example_catalog walk_s2"
    using reach_run[OF 1, of accept_inputs "[]"] by (simp only: walk_run2)
  show 3: "reachable walk_lib example_catalog walk_s3"
    using reach_run[OF 2, of generate_inputs "[]"] by (simp only: walk_run3)
  show "reachable walk_lib example_catalog walk_s4"
    using reach_run[OF 3, of "accept_inputs \<lparr> sel_primary := Some 2 \<rparr>" "[]"]
    by (simp only: walk_run4)
qed

section \<open>What is accepted and what is saved\<close>

lemma selectbox_fallback:
  "options \<noteq> [] \<Longrightarrow> \<not> is_member v (set options) \<Longrightarrow>
   selectbox options (safe_index options v) None = PStr (hd options)"
  by (simp add: selectbox_def safe_index_fallback hd_conv_nth)

text \<open>
  C9: with three non-empty option lists, the accepted snapshot of every reachable state is
  valid: its primary colour, design style and theme are members of their catalogs and
  every secondary colour is a colour of the catalog, whatever the draft was. The
  validator returns no message on it. A select box whose draft value is not in its
  catalog shows the first option, and the default of the secondary colours holds only
  catalog colours.
\<close>

theorem accepted_snapshot_valid:
  assumes "reachable lib cat s" "accepted_meta s = Some a"
    and "color_opts cat \<noteq> []" "design_opts cat \<noteq> []" "theme_opts cat \<noteq> []"
  shows "valid_record a (set (color_opts cat)) (set (design_opts cat)) (set (theme_opts cat))
     \<and> validate_categorical lib a (set (color_opts cat)) (set (design_opts cat))
           (set (theme_opts cat)) = Inr []
     \<and> (\<not> is_member v (set (color_opts cat)) \<longrightarrow>
          selectbox (color_opts cat) (safe_index (color_opts cat) v) None
            = PStr (hd (color_opts cat)))
     \<and> (secondary_default cat draft = Inr dflt \<longrightarrow>
          list_all (\<lambda>x. is_member x (set (color_opts cat))) dflt)"
proof -
  from reachable_inv[OF assms(1)] assms(2) obtain d inp0 where
    f: "final_meta lib cat inp0 d = Inr a"
    by (auto simp: snapshot_inv_def)
  have v: "valid_record a (set (color_opts cat)) (set (design_opts cat)) (set (theme_opts cat))"
    using f assms(3,4,5) by (rule final_meta_valid)
  then have e: "validate_categorical lib a (set (color_opts cat)) (set (design_opts cat))
           (set (theme_opts cat)) = Inr []"
    by (simp add: validate_empty)
  show ?thesis
    using v e selectbox_fallback[OF assms(3)] secondary_default_members by blast
qed

text \<open>
  C10: when a run in which only Save is pressed passes the gate (the description is not
  empty after stripping, and the basis is unset or equal to the fingerprint of the
  accepted snapshot), \<^verbatim>\<open>upsert_swatch\<close> is called once with a row whose five metadata
  fields are those of the accepted snapshot, whose description is the stripped
  description, which neither starts nor ends with a whitespace character, and whose
  \<open>swatch_id\<close> is the stripped ID input, or when that is empty the file name without the
  extension \<^verbatim>\<open>os.path.splitext\<close> finds. The draft has no part in the row: two reachable states
  with the same accepted snapshot, description and basis give the same row.
\<close>

theorem saved_row_from_snapshot:
  assumes "reachable lib cat s" "accepted_meta s = Some a"
    and "\<not> btn_extract inp" "\<not> btn_accept inp" "\<not> btn_generate inp" "btn_save inp"
    and "py_strip (text_input (description s) (txt_description inp)) \<noteq> []"
    and "desc_based_on_meta s = None
         \<or> desc_based_on_meta s = Some (json_dumps lib True True (PDict a))"
  shows "r_upserts (run lib cat inp s tbl) =
       [[(''swatch_id'', PStr (swatch_id inp)),
         (''primary_color'', dict_get a ''primary_color''),
         (''secondary_colors'', dict_get a ''secondary_colors''),
         (''design_style'', dict_get a ''design_style''),
         (''theme'', dict_get a ''theme''),
         (''suitable_for'', dict_get a ''suitable_for''),
         (''description'', PStr (py_strip (text_input (description s) (txt_description inp)))),
         (''image_filename'', PStr (filename inp))]]
     \<and> \<not> py_isspace (hd (py_strip (text_input (description s) (txt_description inp))))
     \<and> \<not> py_isspace (last (py_strip (text_input (description s) (txt_description inp))))
     \<and> swatch_id inp =
         (if py_strip (swatch_id_input inp) = [] then splitext_root (filename inp)
          else py_strip (swatch_id_input inp))
     \<and> (\<exists>ext. filename inp = splitext_root (filename inp) @ ext
            \<and> (ext = [] \<or> (hd ext = CHR ''.'' \<and> CHR ''.'' \<notin> set (tl ext)
                              \<and> CHR ''/'' \<notin> set (tl ext))))
     \<and> (\<forall>s2. reachable lib cat s2 \<and> accepted_meta s2 = Some a
              \<and> description s2 = description s
              \<and> desc_based_on_meta s2 = desc_based_on_meta s \<longrightarrow>
            r_upserts (run lib cat inp s2 tbl) = r_upserts (run lib cat inp s tbl))"
proof -
  have row: "r_upserts (run lib cat inp s2 tbl) =
       [[(''swatch_id'', PStr (swatch_id inp)),
         (''primary_color'', dict_get a ''primary_color''),
         (''secondary_colors'', dict_get a ''secondary_colors''),
         (''design_style'', dict_get a ''design_style''),
         (''theme'', dict_get a ''theme''),
         (''suitable_for'', dict_get a ''suitable_for''),
         (''description'', PStr (py_strip (text_input (description s) (txt_description inp)))),
         (''image_filename'', PStr (filename inp))]]"
    if r: "reachable lib cat s2" and acc: "accepted_meta s2 = Some a"
      and de: "description s2 = description s"
      and ba: "desc_based_on_meta s2 = desc_based_on_meta s" for s2
  proof -
    define s' where "s' = s2 \<lparr> description := text_input (description s2) (txt_description inp) \<rparr>"
    have inv: "snapshot_inv lib cat s2" using r by (rule reachable_inv)
    from snapshot_keys[OF inv acc] obtain pc sc ds th sf where
      k: "a = [(''primary_color'', pc), (''secondary_colors'', PList sc), (''design_style'', ds),
          (''theme'', th), (''suitable_for'', PStr sf)]"
      by blast
    have d': "py_strip (description s') \<noteq> []" using assms(7) de by (simp add: s'_def)
    have bb: "desc_based_on_meta s' = None
         \<or> desc_based_on_meta s' = Some (json_dumps lib True True (PDict a))"
      using assms(8) ba by (simp add: s'_def)
    note red = run_to_save[OF inv acc assms(3,4,5,6) refl, of tbl, folded s'_def]
    note sh = save_handler_fresh[OF d' bb k refl refl]
    have "description s' = text_input (description s) (txt_description inp)"
      using de by (simp add: s'_def)
    then show ?thesis
      using red unfolding sh by simp
  qed
  have ends: "\<not> py_isspace (hd (py_strip (text_input (description s) (txt_description inp))))
     \<and> \<not> py_isspace (last (py_strip (text_input (description s) (txt_description inp))))"
    using assms(7) by (rule py_strip_ends)
  have sid: "swatch_id inp =
         (if py_strip (swatch_id_input inp) = [] then splitext_root (filename inp)
          else py_strip (swatch_id_input inp))"
    by (simp add: swatch_id_def)
  show ?thesis
    using row[OF assms(1,2) refl refl] row ends sid splitext_root_ext[of "filename inp"]
    by (intro conjI allI impI) (simp_all)
qed

section \<open>Accepting\<close>

lemma accepted_after_run:
  "\<not> btn_accept inp \<Longrightarrow>
   accepted_meta (r_session (run lib cat inp s tbl))
   = accepted_meta (fst (extract_handler lib inp s))"
  by (auto simp: run_def step1_def step2_def accept_handler_def generate_handler_def halt_def
      Let_def save_handler_session split: sum.splits option.splits prod.splits)

lemma run_keeps_or_clears:
  assumes "\<not> btn_accept inp"
  shows "accepted_meta (r_session (run lib cat inp s tbl)) = accepted_meta s
       \<or> accepted_meta (r_session (run lib cat inp s tbl)) = None"
  unfolding accepted_after_run[OF assms]
  using extract_handler_cases[of lib inp s] by auto

lemma run_accept:
  assumes "\<not> btn_extract inp" "btn_accept inp" "draft_meta s = Some draft"
    and "validate_categorical lib draft (set (color_opts cat)) (set (design_opts cat))
           (set (theme_opts cat)) = Inr errs"
    and "final_meta lib cat inp draft = Inr fm"
  shows "accepted_meta (r_session (run lib cat inp s tbl)) = Some fm
       \<and> meta_dirty (r_session (run lib cat inp s tbl)) = False
       \<and> draft_meta (r_session (run lib cat inp s tbl)) = Some draft"
proof -
  have a: "fst (accept_handler inp fm s) = s \<lparr> accepted_meta := Some fm, meta_dirty := False \<rparr>"
    using assms(2) by (simp add: accept_handler_def)
  show ?thesis
    unfolding run_no_extract[OF assms(1,3)] step1_session[OF assms(4,5)] a
    using assms(3) by (simp add: generate_handler_fields)
qed

lemma selectbox_keeps_member:
  "is_member v (set options) \<Longrightarrow> selectbox options (safe_index options v) None = v"
proof (cases v)
  case (PStr s)
  assume "is_member v (set options)"
  with PStr have m: "s \<in> set options" by (simp add: is_member_def)
  then have "options \<noteq> []" by auto
  with m PStr show ?thesis
    by (simp add: selectbox_def safe_index_member)
qed (simp_all add: is_member_def)

lemma good_values_all:
  "list_all (\<lambda>x. is_member x S) xs \<Longrightarrow> good_values xs S = Inr xs"
proof (induction xs)
  case Nil
  then show ?case by simp
next
  case (Cons x xs)
  then have "in_set x S = Inr True"
    using in_set_cases[of x S] by auto
  with Cons show ?case by (simp add: ebind_def)
qed

lemma final_meta_verbatim:
  assumes "valid_record draft (set (color_opts cat)) (set (design_opts cat))
             (set (theme_opts cat))"
    and "dict_get draft ''suitable_for'' = PStr sf"
    and "untouched inp"
  shows "final_meta lib cat inp draft =
     Inr [(''primary_color'', dict_get draft ''primary_color''),
          (''secondary_colors'', dict_get draft ''secondary_colors''),
          (''design_style'', dict_get draft ''design_style''),
          (''theme'', dict_get draft ''theme''),
          (''suitable_for'', dict_get draft ''suitable_for'')]"
proof -
  from assms(1) obtain xs where
    pc: "is_member (dict_get draft ''primary_color'') (set (color_opts cat))"
    and ds: "is_member (dict_get draft ''design_style'') (set (design_opts cat))"
    and th: "is_member (dict_get draft ''theme'') (set (theme_opts cat))"
    and sc: "dict_get draft ''secondary_colors'' = PList xs"
    and all: "list_all (\<lambda>x. is_member x (set (color_opts cat))) xs"
    by (auto simp: valid_record_def split: pyval.splits)
  have u: "sel_primary inp = None" "sel_secondary inp = None" "sel_design_style inp = None"
    "sel_theme inp = None" "txt_suitable_for inp = None"
    using assms(3) by (simp_all add: untouched_def)
  have o: "py_or (PList xs) (PList []) = PList xs"
    by (simp add: py_or_def)
  have d: "secondary_default cat draft = Inr xs"
    unfolding secondary_default_def sc o
    by (simp add: py_iter_def ebind_def good_values_all[OF all])
  have s: "py_str lib (py_or (PStr sf) (PStr [])) = sf"
    by (simp add: py_or_def py_str_def)
  show ?thesis
    unfolding final_meta_def Let_def d u assms(2) s
      selectbox_keeps_member[OF pc] selectbox_keeps_member[OF ds] selectbox_keeps_member[OF th]
    by (simp add: ebind_def multiselect_def text_input_def sc)
qed

lemma mark_dirty_draft: "draft_meta (mark_dirty s) = draft_meta s"
  by (simp add: mark_dirty_def)

lemma mark_dirty_cleared: "accepted_meta (mark_dirty s) = None"
  by (simp add: mark_dirty_def)

lemma draft_kept:
  "\<not> btn_extract inp \<Longrightarrow> draft_meta (r_session (run lib cat inp s tbl)) = draft_meta s"
  by (simp add: draft_after_run extract_handler_def)

lemma edit_run_cleared:
  assumes "\<not> btn_accept inp"
  shows "accepted_meta (r_session (edit_run lib cat inp s tbl)) = None"
  unfolding edit_run_def accepted_after_run[OF assms]
  using extract_handler_cases[of lib inp "mark_dirty s"]
  by (auto simp: mark_dirty_cleared)

text \<open>
  C3 says that Accept copies the draft verbatim. It does not: the accepted snapshot is the
  dictionary of the five edit controls, and at the draft of the walk, with no control
  touched, it differs from the draft in the primary colour, the theme and the secondary
  colours.
\<close>

theorem accept_is_not_copy_of_draft:
  "untouched accept_inputs
   \<and> draft_meta walk_s1 = Some invalid_meta
   \<and> draft_meta (r_session (run walk_lib example_catalog accept_inputs walk_s1 []))
       = Some invalid_meta
   \<and> accepted_meta (r_session (run walk_lib example_catalog accept_inputs walk_s1 []))
       = Some accepted_a
   \<and> accepted_a \<noteq> invalid_meta
   \<and> dict_get invalid_meta ''primary_color'' = PStr ''Teal''
   \<and> dict_get accepted_a ''primary_color'' = PStr ''Blue''
   \<and> dict_get invalid_meta ''secondary_colors''
       = PList [PStr ''White'', PStr ''Neon'', PStr ''Mauve'']
   \<and> dict_get accepted_a ''secondary_colors'' = PList [PStr ''White'']"
  unfolding walk_run2
  by (simp add: untouched_def accept_inputs_def idle_inputs_def walk_s1_def walk_s2_def
      invalid_meta_def accepted_a_def dict_get_def)

text \<open>
  C3, as amended: a run in which Accept is pressed sets \<open>accepted_meta\<close> to \<^verbatim>\<open>final_meta\<close>, the
  dictionary of the values the five edit controls return, clears \<open>meta_dirty\<close> and leaves
  the draft as it is. When the draft is valid, its \<open>suitable_for\<close> is a string and no
  control has been touched, that dictionary holds the five entries of the draft verbatim.
  A later run in which Accept is not pressed leaves the snapshot as it is or clears it, and
  an edit clears it; a later run or edit in which Extract is not pressed leaves the draft
  as it is.
\<close>

theorem accept_snapshots_controls:
  assumes "\<not> btn_extract inp" "btn_accept inp" "draft_meta s = Some draft"
    and "validate_categorical lib draft (set (color_opts cat)) (set (design_opts cat))
           (set (theme_opts cat)) = Inr errs"
    and "final_meta lib cat inp draft = Inr fm"
  shows "accepted_meta (r_session (run lib cat inp s tbl)) = Some fm
     \<and> meta_dirty (r_session (run lib cat inp s tbl)) = False
     \<and> draft_meta (r_session (run lib cat inp s tbl)) = Some draft
     \<and> (\<exists>dflt. secondary_default cat draft = Inr dflt
           \<and> fm =
              [(''primary_color'',
                selectbox (color_opts cat)
                  (safe_index (color_opts cat) (dict_get draft ''primary_color''))
                  (sel_primary inp)),
               (''secondary_colors'',
                PList (multiselect (color_opts cat) dflt (sel_secondary inp))),
               (''design_style'',
                selectbox (design_opts cat)
                  (safe_index (design_opts cat) (dict_get draft ''design_style''))
                  (sel_design_style inp)),
               (''theme'',
                selectbox (theme_opts cat)
                  (safe_index (theme_opts cat) (dict_get draft ''theme'')) (sel_theme inp)),
               (''suitable_for'',
                PStr (text_input (py_str lib (py_or (dict_get draft ''suitable_for'') (PStr [])))
                        (txt_suitable_for inp)))])
     \<and> (valid_record draft (set (color_opts cat)) (set (design_opts cat)) (set (theme_opts cat))
          \<and> dict_get draft ''suitable_for'' = PStr sf \<and> untouched inp \<longrightarrow>
          fm = [(''primary_color'', dict_get draft ''primary_color''),
                (''secondary_colors'', dict_get draft ''secondary_colors''),
                (''design_style'', dict_get draft ''design_style''),
                (''theme'', dict_get draft ''theme''),
                (''suitable_for'', dict_get draft ''suitable_for'')])
     \<and> (\<not> btn_accept inp2 \<longrightarrow>
          (accepted_meta (r_session (run lib cat inp2 (r_session (run lib cat inp s tbl)) tbl2))
             = Some fm
           \<or> accepted_meta (r_session (run lib cat inp2 (r_session (run lib cat inp s tbl)) tbl2))
             = None)
          \<and> accepted_meta
               (r_session (edit_run lib cat inp2 (r_session (run lib cat inp s tbl)) tbl2))
             = None)
     \<and> (\<not> btn_extract inp2 \<longrightarrow>
          draft_meta (r_session (run lib cat inp2 (r_session (run lib cat inp s tbl)) tbl2))
            = Some draft
          \<and> draft_meta
               (r_session (edit_run lib cat inp2 (r_session (run lib cat inp s tbl)) tbl2))
            = Some draft)
     \<and> accepted_meta (mark_dirty (r_session (run lib cat inp s tbl))) = None
     \<and> draft_meta (mark_dirty (r_session (run lib cat inp s tbl))) = Some draft"
proof -
  note r = run_accept[OF assms, of tbl]
  note sh = final_meta_shape[OF assms(5)]
  have v: "fm = [(''primary_color'', dict_get draft ''primary_color''),
                (''secondary_colors'', dict_get draft ''secondary_colors''),
                (''design_style'', dict_get draft ''design_style''),
                (''theme'', dict_get draft ''theme''),
                (''suitable_for'', dict_get draft ''suitable_for'')]"
    if "valid_record draft (set (color_opts cat)) (set (design_opts cat)) (set (theme_opts cat))"
      "dict_get draft ''suitable_for'' = PStr sf" "untouched inp"
    using final_meta_verbatim[OF that, of lib] assms(5) by simp
  have k: "accepted_meta (r_session (run lib cat inp2 (r_session (run lib cat inp s tbl)) tbl2))
            = Some fm
          \<or> accepted_meta (r_session (run lib cat inp2 (r_session (run lib cat inp s tbl)) tbl2))
            = None"
    if "\<not> btn_accept inp2"
    using run_keeps_or_clears[OF that, of lib cat "r_session (run lib cat inp s tbl)" tbl2] r
    by simp
  have e: "accepted_meta
               (r_session (edit_run lib cat inp2 (r_session (run lib cat inp s tbl)) tbl2))
             = None"
    if "\<not> btn_accept inp2"
    using that by (rule edit_run_cleared)
  have d: "draft_meta (r_session (run lib cat inp2 (r_session (run lib cat inp s tbl)) tbl2))
            = Some draft"
    if "\<not> btn_extract inp2"
    using draft_kept[OF that, of lib cat "r_session (run lib cat inp s tbl)" tbl2] r by simp
  have de: "draft_meta
               (r_session (edit_run lib cat inp2 (r_session (run lib cat inp s tbl)) tbl2))
            = Some draft"
    if "\<not> btn_extract inp2"
    unfolding edit_run_def draft_kept[OF that] using r by (simp add: mark_dirty_draft)
  have m: "accepted_meta (mark_dirty (r_session (run lib cat inp s tbl))) = None"
    "draft_meta (mark_dirty (r_session (run lib cat inp s tbl))) = Some draft"
    using r by (simp_all add: mark_dirty_cleared mark_dirty_draft)
  show ?thesis
    using r sh v k e d de m by (intro conjI impI) blast+
qed

theorem accept_snapshots_controls_witness:
  "\<not> btn_extract accept_inputs \<and> btn_accept accept_inputs \<and> untouched accept_inputs
   \<and> draft_meta scenario_b_draft = Some scenario_b_meta
   \<and> valid_record scenario_b_meta (set (color_opts example_catalog))
        (set (design_opts example_catalog)) (set (theme_opts example_catalog))
   \<and> validate_categorical walk_lib scenario_b_meta (set (color_opts example_catalog))
        (set (design_opts example_catalog)) (set (theme_opts example_catalog)) = Inr []
   \<and> final_meta walk_lib example_catalog accept_inputs scenario_b_meta = Inr scenario_b_meta
   \<and> accepted_meta (r_session (run walk_lib example_catalog accept_inputs scenario_b_draft []))
       = Some scenario_b_meta
   \<and> \<not> btn_accept idle_inputs \<and> \<not> btn_extract idle_inputs
   \<and> (accepted_meta
          (r_session (run walk_lib example_catalog idle_inputs
             (r_session (run walk_lib example_catalog accept_inputs scenario_b_draft [])) []))
         = Some scenario_b_meta
        \<or> accepted_meta
          (r_session (run walk_lib example_catalog idle_inputs
             (r_session (run walk_lib example_catalog accept_inputs scenario_b_draft [])) []))
         = None)
   \<and> draft_meta
        (r_session (run walk_lib example_catalog idle_inputs
           (r_session (run walk_lib example_catalog accept_inputs scenario_b_draft [])) []))
       = Some scenario_b_meta
   \<and> accepted_meta
        (r_session (edit_run walk_lib example_catalog idle_inputs
           (r_session (run walk_lib example_catalog accept_inputs scenario_b_draft [])) []))
       = None
   \<and> draft_meta
        (r_session (edit_run walk_lib example_catalog idle_inputs
           (r_session (run walk_lib example_catalog accept_inputs scenario_b_draft [])) []))
       = Some scenario_b_meta
   \<and> accepted_meta
        (mark_dirty (r_session (run walk_lib example_catalog accept_inputs scenario_b_draft [])))
       = None
   \<and> draft_meta
        (mark_dirty (r_session (run walk_lib example_catalog accept_inputs scenario_b_draft [])))
       = Some scenario_b_meta"
proof -
  have b: "\<not> btn_extract accept_inputs" "btn_accept accept_inputs"
    by (simp_all add: accept_inputs_def idle_inputs_def)
  have u: "untouched accept_inputs"
    by (simp add: untouched_def accept_inputs_def idle_inputs_def)
  have d: "draft_meta scenario_b_draft = Some scenario_b_meta"
    by (simp add: scenario_b_draft_def)
  have vr: "valid_record scenario_b_meta (set (color_opts example_catalog))
        (set (design_opts example_catalog)) (set (theme_opts example_catalog))"
    by (simp add: valid_record_def scenario_b_meta_def dict_get_def is_member_def
        example_catalog_def)
  have v: "validate_categorical walk_lib scenario_b_meta (set (color_opts example_catalog))
        (set (design_opts example_catalog)) (set (theme_opts example_catalog)) = Inr []"
    using vr by (simp add: validate_empty)
  have sf: "dict_get scenario_b_meta ''suitable_for'' = PStr []"
    by (simp add: scenario_b_meta_def dict_get_def)
  have f: "final_meta walk_lib example_catalog accept_inputs scenario_b_meta = Inr scenario_b_meta"
    unfolding final_meta_verbatim[OF vr sf u]
    by (simp add: scenario_b_meta_def dict_get_def)
  have i: "\<not> btn_accept idle_inputs" "\<not> btn_extract idle_inputs"
    by (simp_all add: idle_inputs_def)
  note t = accept_snapshots_controls [OF b d v f, of "[]" "[]" idle_inputs "[]"]
  show ?thesis
    using t b u d vr v f i by (intro conjI) (simp_all)
qed

section \<open>The theorems on the walked session\<close>

theorem save_gate_witness:
  "reachable walk_lib example_catalog walk_s4
   \<and> accepted_meta walk_s4 = Some accepted_b
   \<and> desc_based_on_meta walk_s4 = Some sig_a
   \<and> json_dumps walk_lib True True (PDict accepted_b) \<noteq> sig_a
   \<and> r_upserts (run walk_lib example_catalog save_inputs walk_s4 []) = []
   \<and> r_table (run walk_lib example_catalog save_inputs walk_s4 []) = []
   \<and> r_outcome (run walk_lib example_catalog save_inputs walk_s4 []) = Stopped
   \<and> reachable walk_lib example_catalog walk_s3
   \<and> accepted_meta walk_s3 = Some accepted_a
   \<and> desc_based_on_meta walk_s3 = Some sig_a
   \<and> json_dumps walk_lib True True (PDict accepted_a) = sig_a
   \<and> length (r_upserts (run walk_lib example_catalog save_inputs walk_s3 [])) = 1
   \<and> r_outcome (run walk_lib example_catalog save_inputs walk_s3 []) = Finished
   \<and> r_session (run walk_lib example_catalog save_inputs walk_s3 []) = walk_s3"
proof -
  have b: "\<not> btn_extract save_inputs" "\<not> btn_accept save_inputs" "\<not> btn_generate save_inputs"
    "btn_save save_inputs"
    by (simp_all add: save_inputs_def idle_inputs_def)
  have t: "txt_description save_inputs = None"
    by (simp add: save_inputs_def idle_inputs_def)
  have a4: "accepted_meta walk_s4 = Some accepted_b" and b4: "desc_based_on_meta walk_s4 = Some sig_a"
    by (simp_all add: walk_s4_def)
  have a3: "accepted_meta walk_s3 = Some accepted_a" and b3: "desc_based_on_meta walk_s3 = Some sig_a"
    by (simp_all add: walk_s3_def)
  have st: "py_strip ''A blue wallpaper with floral motifs.'' \<noteq> []"
    by (simp add: py_strip_def py_isspace_def)
  have d4: "py_strip (text_input (description walk_s4) (txt_description save_inputs)) \<noteq> []"
    using st by (simp add: t text_input_def walk_s4_def)
  have d3: "py_strip (text_input (description walk_s3) (txt_description save_inputs)) \<noteq> []"
    using st by (simp add: t text_input_def walk_s3_def)
  have ja: "json_dumps walk_lib True True (PDict accepted_a) = sig_a"
    by (simp add: walk_lib_def table_lib_def)
  have jb: "json_dumps walk_lib True True (PDict accepted_b) = sig_b"
    by (simp add: walk_lib_def table_lib_def accepted_a_def accepted_b_def)
  have ne: "sig_b \<noteq> sig_a"
    by (simp add: sig_a_def sig_b_def)
  have jn: "json_dumps walk_lib True True (PDict accepted_b) \<noteq> sig_a"
    using jb ne by simp
  have e3: "walk_s3 \<lparr> description := text_input (description walk_s3) (txt_description save_inputs) \<rparr>
            = walk_s3"
    by (simp add: t text_input_def)
  note g4 = save_gate [OF walk_reachable(4) a4 b d4 b4, of "[]"]
  note g3 = save_gate [OF walk_reachable(3) a3 b d3 b3, of "[]"]
  have r4: "r_upserts (run walk_lib example_catalog save_inputs walk_s4 []) = []"
    "r_table (run walk_lib example_catalog save_inputs walk_s4 []) = []"
    "r_outcome (run walk_lib example_catalog save_inputs walk_s4 []) = Stopped"
    using g4 jn by simp_all
  have r3: "length (r_upserts (run walk_lib example_catalog save_inputs walk_s3 [])) = 1"
    "r_outcome (run walk_lib example_catalog save_inputs walk_s3 []) = Finished"
    "r_session (run walk_lib example_catalog save_inputs walk_s3 []) = walk_s3"
    using g3 ja e3 by auto
  show ?thesis
    using walk_reachable(3,4) a4 b4 jn r4 a3 b3 ja r3 by simp
qed

theorem accepted_snapshot_valid_witness:
  "reachable walk_lib example_catalog walk_s2
   \<and> accepted_meta walk_s2 = Some accepted_a
   \<and> color_opts example_catalog \<noteq> [] \<and> design_opts example_catalog \<noteq> []
   \<and> theme_opts example_catalog \<noteq> []
   \<and> valid_record accepted_a (set (color_opts example_catalog))
        (set (design_opts example_catalog)) (set (theme_opts example_catalog))
   \<and> validate_categorical walk_lib accepted_a (set (color_opts example_catalog))
        (set (design_opts example_catalog)) (set (theme_opts example_catalog)) = Inr []"
proof -
  have a: "accepted_meta walk_s2 = Some accepted_a" by (simp add: walk_s2_def)
  have n: "color_opts example_catalog \<noteq> []" "design_opts example_catalog \<noteq> []"
    "theme_opts example_catalog \<noteq> []"
    by (simp_all add: example_catalog_def)
  show ?thesis
    using accepted_snapshot_valid [OF walk_reachable(2) a n] walk_reachable(2) a n
    by simp
qed

theorem saved_row_from_snapshot_witness:
  "reachable walk_lib example_catalog walk_s3
   \<and> accepted_meta walk_s3 = Some accepted_a
   \<and> \<not> btn_extract save_typed_inputs \<and> \<not> btn_accept save_typed_inputs
   \<and> \<not> btn_generate save_typed_inputs \<and> btn_save save_typed_inputs
   \<and> desc_based_on_meta walk_s3 = Some (json_dumps walk_lib True True (PDict accepted_a))
   \<and> r_upserts (run walk_lib example_catalog save_typed_inputs walk_s3 []) =
       [[(''swatch_id'', PStr ''swatch_0001''),
         (''primary_color'', PStr ''Blue''),
         (''secondary_colors'', PList [PStr ''White'']),
         (''design_style'', PStr ''Modern''),
         (''theme'', PStr ''Floral''),
         (''suitable_for'', PStr ''Bedroom''),
         (''description'', PStr ''A calm blue wallpaper.''),
         (''image_filename'', PStr ''swatch_0001.png'')]]"
proof -
  have b: "\<not> btn_extract save_typed_inputs" "\<not> btn_accept save_typed_inputs"
    "\<not> btn_generate save_typed_inputs" "btn_save save_typed_inputs"
    by (simp_all add: save_typed_inputs_def idle_inputs_def)
  have a3: "accepted_meta walk_s3 = Some accepted_a" by (simp add: walk_s3_def)
  have ja: "json_dumps walk_lib True True (PDict accepted_a) = sig_a"
    by (simp add: walk_lib_def table_lib_def)
  have b3: "desc_based_on_meta walk_s3 = Some (json_dumps walk_lib True True (PDict accepted_a))"
    unfolding ja by (simp add: walk_s3_def)
  have ti: "text_input (description walk_s3) (txt_description save_typed_inputs)
            = ''  A calm blue wallpaper. ''"
    by (simp add: text_input_def save_typed_inputs_def)
  have st: "py_strip ''  A calm blue wallpaper. '' = ''A calm blue wallpaper.''"
    by (simp add: py_strip_def py_isspace_def)
  have d3: "py_strip (text_input (description walk_s3) (txt_description save_typed_inputs)) \<noteq> []"
    unfolding ti st by simp
  have fn: "filename save_typed_inputs = ''swatch_0001.png''"
    by (simp add: save_typed_inputs_def idle_inputs_def)
  have blank: "py_strip (swatch_id_input save_typed_inputs) = []"
    by (simp add: save_typed_inputs_def py_strip_def py_isspace_def)
  have root: "splitext_root ''swatch_0001.png'' = ''swatch_0001''"
    by (simp add: splitext_root_def py_rfind_def py_slice_def Let_def)
  have sid: "swatch_id save_typed_inputs = ''swatch_0001''"
    by (simp add: swatch_id_def blank fn root)
  have g: "dict_get accepted_a ''primary_color'' = PStr ''Blue''"
    "dict_get accepted_a ''secondary_colors'' = PList [PStr ''White'']"
    "dict_get accepted_a ''design_style'' = PStr ''Modern''"
    "dict_get accepted_a ''theme'' = PStr ''Floral''"
    "dict_get accepted_a ''suitable_for'' = PStr ''Bedroom''"
    by (simp_all add: accepted_a_def dict_get_def)
  have "r_upserts (run walk_lib example_catalog save_typed_inputs walk_s3 []) =
       [[(''swatch_id'', PStr (swatch_id save_typed_inputs)),
         (''primary_color'', dict_get accepted_a ''primary_color''),
         (''secondary_colors'', dict_get accepted_a ''secondary_colors''),
         (''design_style'', dict_get accepted_a ''design_style''),
         (''theme'', dict_get accepted_a ''theme''),
         (''suitable_for'', dict_get accepted_a ''suitable_for''),
         (''description'',
          PStr (py_strip (text_input (description walk_s3) (txt_description save_typed_inputs)))),
         (''image_filename'', PStr (filename save_typed_inputs))]]"
    using saved_row_from_snapshot [OF walk_reachable(3) a3 b d3 disjI2[OF b3], of "[]"]
    by blast
  then have "r_upserts (run walk_lib example_catalog save_typed_inputs walk_s3 []) =
       [[(''swatch_id'', PStr ''swatch_0001''),
         (''primary_color'', PStr ''Blue''),
         (''secondary_colors'', PList [PStr ''White'']),
         (''design_style'', PStr ''Modern''),
         (''theme'', PStr ''Floral''),
         (''suitable_for'', PStr ''Bedroom''),
         (''description'', PStr ''A calm blue wallpaper.''),
         (''image_filename'', PStr ''swatch_0001.png'')]]"
    unfolding sid g ti st fn by simp
  then show ?thesis
    using walk_reachable(3) a3 b b3 by simp
qed

end
